theory Spec2Isabelle
  imports Main "HOL-Library.Word"
begin

section \<open>Service options (service/options.go)\<close>

text \<open>
  Go's \<^verbatim>\<open>uint64\<close> is a 64-bit word: addition wraps, the order and \<^verbatim>\<open>%\<close> are
  the unsigned ones.
\<close>

type_synonym uint64 = "64 word"

text \<open>
  Interface values handed to the options are opaque handles. A nil interface is
  \<open>None\<close>, so a field of interface type is an \<open>option\<close>.
\<close>

datatype Meter = Meter nat
datatype WASMExtensioner = WASMExtensioner nat
datatype PipelineOptioner = PipelineOptioner nat

record RuntimeConfig =
  WithRequestStats :: bool
  MaxWasmFuel :: uint64
  ModuleExecutionTracing :: bool

text \<open>
  The structs \<^verbatim>\<open>Tier1Service\<close> and \<^verbatim>\<open>Tier2Service\<close> are declared outside
  options.go; the options touch the same four fields of either, which the record
  below holds. \<^verbatim>\<open>anyTierService\<close> is \<^verbatim>\<open>interface{}\<close>: the type switch of an
  option has no default branch, so any other value is left alone.
\<close>

record ServiceFields =
  bytesMeter :: "Meter option"
  wasmExtensions :: "WASMExtensioner list"
  pipelineOptions :: "PipelineOptioner list"
  runtimeConfig :: RuntimeConfig

datatype anyTierService =
    Tier1Service ServiceFields
  | Tier2Service ServiceFields
  | OtherService

text \<open>
  \<^verbatim>\<open>WithBytesMeter(bm)\<close>. The constructor \<^verbatim>\<open>dmetering.NewBytesMeter()\<close> belongs to
  another package: the meter it builds is the parameter \<open>newBytesMeter\<close>.
\<close>

definition WithBytesMeter :: "Meter \<Rightarrow> Meter option \<Rightarrow> anyTierService \<Rightarrow> anyTierService" where
  "WithBytesMeter newBytesMeter bm =
     (let bm' = (if bm = None then Some newBytesMeter else bm)
      in (\<lambda>a. case a of
            Tier1Service s \<Rightarrow> Tier1Service (s\<lparr>bytesMeter := bm'\<rparr>)
          | Tier2Service s \<Rightarrow> Tier2Service (s\<lparr>bytesMeter := bm'\<rparr>)
          | OtherService \<Rightarrow> OtherService))"

text \<open>The meter a service holds (no meter field for a value that is no tier service).\<close>

fun serviceBytesMeter :: "anyTierService \<Rightarrow> Meter option" where
  "serviceBytesMeter (Tier1Service s) = bytesMeter s"
| "serviceBytesMeter (Tier2Service s) = bytesMeter s"
| "serviceBytesMeter OtherService = None"

definition exampleService :: ServiceFields where
  "exampleService =
     \<lparr>bytesMeter = None, wasmExtensions = [], pipelineOptions = [],
      runtimeConfig = \<lparr>WithRequestStats = False, MaxWasmFuel = 0, ModuleExecutionTracing = False\<rparr>\<rparr>"

section \<open>Errors and library functions\<close>

text \<open>
  An error value is kept the way the source builds it: the sentinel \<^verbatim>\<open>io.EOF\<close>, a
  gRPC status error with its code, \<^verbatim>\<open>fmt.Errorf\<close> with its format string and its
  arguments left unrendered, and the errors that collaborators outside this code
  return (identified by their text). A value passed to \<^verbatim>\<open>panic\<close> is its text.
\<close>

datatype Code = InvalidArgument

record BlockRef =
  ID :: string
  Num :: uint64

type_synonym StepType = int

record Cursor =
  Step :: StepType
  Block :: BlockRef

datatype error =
    EOF
  | StatusError Code string "fmt_arg list"
  | Errorf string "fmt_arg list"
  | External string
and fmt_arg =
    ArgUint uint64
  | ArgString string
  | ArgError error
  | ArgCursor "Cursor option"

text \<open>
  Functions of imported packages are parameters, gathered in one record:
  \<^item> \<open>ErrorText\<close> is the method \<^verbatim>\<open>Error()\<close> of an error value;
  \<^item> \<open>CursorFromOpaque\<close> is \<^verbatim>\<open>bstream.CursorFromOpaque\<close>: it returns a cursor, or the
    cursor pointer (possibly nil) together with an error;
  \<^item> \<open>Matches\<close> is \<^verbatim>\<open>StepType.Matches\<close>, and \<open>StepIrreversible\<close>, \<open>StepNew\<close>,
    \<open>StepUndo\<close> are the constants of \<^verbatim>\<open>bstream\<close>;
  \<^item> \<open>ToOpaque\<close> is \<^verbatim>\<open>Cursor.ToOpaque\<close>, \<open>StepToProto\<close> is
    \<^verbatim>\<open>pbsubstreams.StepToProto\<close>.
\<close>

record library =
  ErrorText :: "error \<Rightarrow> string"
  CursorFromOpaque :: "string \<Rightarrow> (Cursor option \<times> error) + Cursor"
  Matches :: "StepType \<Rightarrow> StepType \<Rightarrow> bool"
  StepIrreversible :: StepType
  StepNew :: StepType
  StepUndo :: StepType
  ToOpaque :: "Cursor \<Rightarrow> string"
  StepToProto :: "StepType \<Rightarrow> int"

section \<open>Request resolver\<close>

text \<open>
  The fields of the request that the resolver and the pipeline read.
  \<^verbatim>\<open>StartBlockNum\<close> is an \<^verbatim>\<open>int64\<close>: its sign is read with \<open>sint\<close>, and the
  conversion \<^verbatim>\<open>uint64(req.StartBlockNum)\<close> keeps the 64 bits.
\<close>

record Request =
  StartBlockNum :: uint64
  StartCursor :: string
  StopBlockNum :: uint64
  ProductionMode :: bool
  OutputModules :: "string list"

record RequestDetails =
  rd_Request :: Request
  IsSubRequest :: bool
  rd_StopBlockNum :: uint64
  IsOutputModule :: "string \<rightharpoonup> bool"
  RequestStartBlockNum :: uint64
  LinearHandoffBlockNum :: uint64

definition minOf :: "uint64 \<Rightarrow> uint64 \<Rightarrow> uint64" where
  "minOf a b = (if a < b then a else b)"

definition resolveStartBlockNum :: "library \<Rightarrow> Request \<Rightarrow> error + uint64" where
  "resolveStartBlockNum lib req =
     (if sint (StartBlockNum req) < 0
      then Inl (StatusError InvalidArgument ''start block num must be positive'' [])
      else if StartCursor req = []
      then Inr (StartBlockNum req)
      else (case CursorFromOpaque lib (StartCursor req) of
          Inl (cursor, err) \<Rightarrow>
            Inl (StatusError InvalidArgument ''invalid start cursor %q: %s''
                   [ArgCursor cursor, ArgString (ErrorText lib err)])
        | Inr cursor \<Rightarrow>
            if Matches lib (Step cursor) (StepIrreversible lib)
            then Inr (Num (Block cursor) + 1)
            else if Matches lib (Step cursor) (StepNew lib)
            then Inr (Num (Block cursor) + 1)
            else if Matches lib (Step cursor) (StepUndo lib)
            then Inr (Num (Block cursor))
            else Inl (Errorf ''invalid start cursor step'' [])))"

text \<open>
  \<^verbatim>\<open>BuildRequestDetails\<close>. The function argument \<^verbatim>\<open>getRecentFinalBlock\<close> is called
  once on every path that reaches it; the model takes what that call returns.
\<close>

definition BuildRequestDetails ::
  "library \<Rightarrow> Request \<Rightarrow> bool \<Rightarrow> error + uint64 \<Rightarrow> error + RequestDetails" where
  "BuildRequestDetails lib request isSubRequest getRecentFinalBlock =
     (let req = \<lparr>rd_Request = request, IsSubRequest = isSubRequest,
                 rd_StopBlockNum = StopBlockNum request,
                 IsOutputModule = foldl (\<lambda>m modName. m(modName \<mapsto> True)) Map.empty (OutputModules request),
                 RequestStartBlockNum = 0, LinearHandoffBlockNum = 0\<rparr>
      in case resolveStartBlockNum lib request of
          Inl err \<Rightarrow> Inl err
        | Inr start \<Rightarrow>
            (let req = req\<lparr>RequestStartBlockNum := start\<rparr>
             in if ProductionMode request
                then (case getRecentFinalBlock of
                    Inl err \<Rightarrow>
                      if StopBlockNum request = 0
                      then Inl (Errorf ''cannot determine a recent finalized block: %w'' [ArgError err])
                      else Inr (req\<lparr>LinearHandoffBlockNum := StopBlockNum request\<rparr>)
                  | Inr maxHandoff \<Rightarrow>
                      if StopBlockNum request = 0
                      then Inr (req\<lparr>LinearHandoffBlockNum := maxHandoff\<rparr>)
                      else Inr (req\<lparr>LinearHandoffBlockNum := minOf (StopBlockNum request) maxHandoff\<rparr>))
                else (case getRecentFinalBlock of
                    Inl err \<Rightarrow> Inr (req\<lparr>LinearHandoffBlockNum := RequestStartBlockNum req\<rparr>)
                  | Inr maxHandoff \<Rightarrow>
                      Inr (req\<lparr>LinearHandoffBlockNum := minOf (RequestStartBlockNum req) maxHandoff\<rparr>))))"

text \<open>
  A library instance for concrete runs: steps are bit masks, four opaque cursors
  parse, every other string is rejected.
\<close>

definition exampleLibrary :: library where
  "exampleLibrary =
     \<lparr>ErrorText = (\<lambda>e. case e of External m \<Rightarrow> m | EOF \<Rightarrow> ''EOF'' | _ \<Rightarrow> ''error''),
      CursorFromOpaque = (\<lambda>s.
         if s = ''irr49'' then Inr \<lparr>Step = 16, Block = \<lparr>ID = ''x'', Num = 49\<rparr>\<rparr>
         else if s = ''new49'' then Inr \<lparr>Step = 1, Block = \<lparr>ID = ''x'', Num = 49\<rparr>\<rparr>
         else if s = ''undo49'' then Inr \<lparr>Step = 2, Block = \<lparr>ID = ''x'', Num = 49\<rparr>\<rparr>
         else if s = ''stalled49'' then Inr \<lparr>Step = 32, Block = \<lparr>ID = ''x'', Num = 49\<rparr>\<rparr>
         else Inl (None, External ''invalid cursor'')),
      Matches = (\<lambda>s t. and s t \<noteq> 0),
      StepIrreversible = 16, StepNew = 1, StepUndo = 2,
      ToOpaque = (\<lambda>c. ID (Block c)),
      StepToProto = (\<lambda>s. s)\<rparr>"

definition exampleRequest :: Request where
  "exampleRequest =
     \<lparr>StartBlockNum = 50, StartCursor = [], StopBlockNum = 110,
      ProductionMode = False, OutputModules = [''M'']\<rparr>"

section \<open>Binding flags to environment variables (cli)\<close>

text \<open>
  A \<^verbatim>\<open>*pflag.Flag\<close> is a pointer: the flags live in a store, and a flag set is the
  list of the references it visits, so that a flag reachable from two flag sets is one
  object. \<^verbatim>\<open>f.Value\<close> is an interface; its state is the string it holds, and what
  \<^verbatim>\<open>Value.Set\<close> makes of it is the parameter \<open>ValueSet\<close> (the error it returns is
  dropped by the source). \<^verbatim>\<open>os.Getenv\<close> and \<^verbatim>\<open>strings.ToUpper\<close> are parameters
  too. The line printed for a persistent flag is not modelled.
\<close>

record Flag =
  flag_Name :: string
  Usage :: string
  Value :: string
  Changed :: bool

type_synonym flag_ref = nat
type_synonym flag_store = "flag_ref \<rightharpoonup> Flag"

datatype Command =
  Command (cmd_Name: string) (PersistentFlags: "flag_ref list") (Flags: "flag_ref list")
    (Commands: "Command list")

record os_library =
  Getenv :: "string \<Rightarrow> string"
  ToUpper :: "string \<Rightarrow> string"
  ValueSet :: "string \<Rightarrow> string \<Rightarrow> string"

text \<open>\<^verbatim>\<open>strings.Join\<close>, and \<^verbatim>\<open>strings.Replace(s, "-", "_", -1)\<close>.\<close>

fun Join :: "string list \<Rightarrow> string \<Rightarrow> string" where
  "Join [] sep = []"
| "Join [a] sep = a"
| "Join (a # b # rest) sep = a @ sep @ Join (b # rest) sep"

definition ReplaceDash :: "string \<Rightarrow> string" where
  "ReplaceDash s = map (\<lambda>c. if c = CHR ''-'' then CHR ''_'' else c) s"

text \<open>The body of both visitor closures, for the variable name \<open>varName\<close>.\<close>

definition bindFlag :: "os_library \<Rightarrow> string \<Rightarrow> Flag \<Rightarrow> Flag" where
  "bindFlag os varName f =
     (let val = Getenv os varName
      in if val \<noteq> []
         then (let f1 = f\<lparr>Usage := Usage f @ '' [LOADED FROM ENV]''\<rparr>
               in if \<not> Changed f1 then f1\<lparr>Value := ValueSet os (Value f1) val\<rparr> else f1)
         else f)"

definition flagVarName :: "os_library \<Rightarrow> string \<Rightarrow> string \<Rightarrow> string \<Rightarrow> Flag \<Rightarrow> string" where
  "flagVarName os prefix segmentPrefix scope f =
     (let newName = ReplaceDash (ToUpper os (flag_Name f))
      in prefix @ ''_'' @ segmentPrefix @ scope @ newName)"

text \<open>\<^verbatim>\<open>FlagSet.VisitAll\<close>: the function is applied to each flag of the set in turn.\<close>

fun VisitAll :: "(Flag \<Rightarrow> Flag) \<Rightarrow> flag_ref list \<Rightarrow> flag_store \<Rightarrow> flag_store" where
  "VisitAll fn [] st = st"
| "VisitAll fn (r # rs) st =
     VisitAll fn rs (case st r of None \<Rightarrow> st | Some f \<Rightarrow> st(r \<mapsto> fn f))"

fun recurseCommands :: "os_library \<Rightarrow> Command \<Rightarrow> string \<Rightarrow> string list \<Rightarrow> flag_store \<Rightarrow> flag_store" where
  "recurseCommands os (Command name pflags flags cmds) prefix segments st =
     (let segmentPrefix = (if length segments > 0 then ToUpper os (Join segments ''_'') @ ''_'' else []);
          st1 = VisitAll (\<lambda>f. bindFlag os (flagVarName os prefix segmentPrefix ''GLOBAL_'' f) f) pflags st;
          st2 = VisitAll (\<lambda>f. bindFlag os (flagVarName os prefix segmentPrefix ''CMD_'' f) f) flags st1
      in foldl (\<lambda>s cmd. recurseCommands os cmd prefix (segments @ [cmd_Name cmd]) s) st2 cmds)"

definition autoBind :: "os_library \<Rightarrow> Command \<Rightarrow> string \<Rightarrow> flag_store \<Rightarrow> flag_store" where
  "autoBind os root prefix st = recurseCommands os root prefix [] st"

text \<open>What a visit keeps of a flag: its name, its marker, and its value when the marker is set.\<close>

definition kept :: "Flag \<Rightarrow> Flag \<Rightarrow> bool" where
  "kept f f' = (flag_Name f' = flag_Name f \<and> Changed f' = Changed f \<and> (Changed f \<longrightarrow> Value f' = Value f))"

text \<open>A concrete command tree, flag store and environment.\<close>

definition asciiUpper :: "string \<Rightarrow> string" where
  "asciiUpper s =
     map (\<lambda>c. case map_of (zip ''abcdefghijklmnopqrstuvwxyz'' ''ABCDEFGHIJKLMNOPQRSTUVWXYZ'') c of
                None \<Rightarrow> c | Some u \<Rightarrow> u) s"

definition exampleOs :: os_library where
  "exampleOs =
     \<lparr>Getenv = (\<lambda>v. if v = ''SUBSTREAMS_GLOBAL_CONFIG'' then ''from-env''
                     else if v = ''SUBSTREAMS_RUN_CMD_START_BLOCK'' then ''42'' else []),
      ToUpper = asciiUpper,
      ValueSet = (\<lambda>old new. new)\<rparr>"

definition exampleFlags :: flag_store where
  "exampleFlags =
     [0 \<mapsto> \<lparr>flag_Name = ''config'', Usage = ''config file'', Value = ''from-cli'', Changed = True\<rparr>,
      1 \<mapsto> \<lparr>flag_Name = ''start-block'', Usage = ''first block'', Value = ''0'', Changed = False\<rparr>]"

definition exampleRoot :: Command where
  "exampleRoot = Command ''substreams'' [0] [] [Command ''run'' [] [1] []]"

section \<open>Pipeline: the block handler (pipeline)\<close>

text \<open>
  A call into a collaborator that can fail has three outcomes: it returns, it returns
  an error, or it panics with a value.
\<close>

datatype 'a res = Returns 'a | Fails error | Panics string

type_synonym bytes = "8 word list"

record Clock =
  Number :: uint64
  BlockId :: string
  Timestamp :: int

text \<open>
  \<^verbatim>\<open>bstream.Block\<close>: \<^verbatim>\<open>Num()\<close> reads \<^verbatim>\<open>Number\<close>, \<^verbatim>\<open>Time()\<close> the timestamp,
  \<^verbatim>\<open>AsRef()\<close> pairs the id and the number; \<open>blk_Payload\<close> is what
  \<^verbatim>\<open>Payload.Get()\<close> gives for this block.
\<close>

record bstream_Block =
  blk_Id :: string
  blk_Number :: uint64
  blk_Time :: int
  blk_Payload :: "bytes res"

text \<open>
  The handler's second argument is an \<^verbatim>\<open>interface{}\<close>. When it implements
  \<^verbatim>\<open>bstream.Cursorable\<close> and \<^verbatim>\<open>bstream.Stepable\<close> it gives a cursor and a step.
  When it does not, the first failing type assertion panics: \<open>assertionPanic\<close> is
  then the value of that panic, and the other two fields are never read.
\<close>

record HandlerObj =
  assertionPanic :: "string option"
  obj_Cursor :: Cursor
  obj_Step :: StepType

datatype ModuleOutputData = MapOutput bytes | StoreDeltas bytes

record ModuleOutput =
  mo_Name :: string
  mo_Data :: ModuleOutputData
  mo_Logs :: "string list"
  mo_LogsTruncated :: bool

record BlockRange =
  StartBlock :: uint64
  EndBlock :: uint64

datatype ModuleProgress_Type =
    ProcessedRanges "BlockRange list"
  | Failed (Reason: string) (Logs: "string list") (LogsTruncated: bool)

record ModuleProgress =
  mp_Name :: string
  mp_Type :: ModuleProgress_Type

record BlockScopedData =
  Outputs :: "ModuleOutput list"
  bsd_Clock :: Clock
  bsd_Step :: int
  bsd_Cursor :: string

datatype Response =
    BlockScopedDataResponse BlockScopedData
  | ModulesProgressResponse "ModuleProgress list"

text \<open>
  Of a \<^verbatim>\<open>state.Store\<close> the handler reads the name and the initial block; the
  key/value state and the deltas are the opaque field \<open>contents\<close>.
\<close>

record Store =
  Name :: string
  StoreInitialBlock :: uint64
  contents :: nat

text \<open>
  A \<^verbatim>\<open>ModuleExecutor\<close>: \<^verbatim>\<open>Name()\<close>, \<^verbatim>\<open>moduleLogs()\<close> and
  \<^verbatim>\<open>moduleOutputData()\<close> read the fields below; \<^verbatim>\<open>run\<close> is a collaborator.
\<close>

record Executor =
  ex_Name :: string
  ex_Logs :: "string list"
  ex_LogsTruncated :: bool
  ex_Data :: ModuleOutputData

text \<open>
  The collaborators of the handler, none of them part of this code:
  \<^item> \<open>Update\<close>, \<open>Save\<close>: the output cache (\<^verbatim>\<open>moduleOutputCache\<close>);
  \<^item> \<open>WriteState\<close>, \<open>IsPartial\<close>, \<open>Truncate\<close>, \<open>Roll\<close>, \<open>Flush\<close>: the methods of a
    store;
  \<^item> \<open>run\<close>: an executor's \<^verbatim>\<open>run\<close>, which returns the executor and the scratch map
    as it leaves them (what a store executor writes into its store is not modelled);
  \<^item> \<open>respFunc\<close>: the response function handed to \<^verbatim>\<open>HandlerFactory\<close>;
  \<^item> \<open>Marshal\<close>: \<^verbatim>\<open>proto.Marshal\<close> of the clock (the source drops its error).
  Calls that return no error are taken as total. Logging is not modelled.
\<close>

record env =
  Update :: "BlockRef \<Rightarrow> unit res"
  Save :: "unit res"
  WriteState :: "Store \<Rightarrow> uint64 \<Rightarrow> unit res"
  IsPartial :: "Store \<Rightarrow> bool"
  Truncate :: "Store \<Rightarrow> Store"
  Roll :: "Store \<Rightarrow> uint64 \<Rightarrow> Store"
  Flush :: "Store \<Rightarrow> Store"
  run :: "Executor \<Rightarrow> (string \<rightharpoonup> bytes) \<Rightarrow> Clock \<Rightarrow> bstream_Block
            \<Rightarrow> Executor \<times> (string \<rightharpoonup> bytes) \<times> unit res"
  respFunc :: "Response \<Rightarrow> unit res"
  Marshal :: "Clock \<Rightarrow> bytes"

text \<open>
  The fields of \<^verbatim>\<open>Pipeline\<close> that the handler uses. \<open>storesMap\<close> lists the entries
  of the Go map in the order in which a \<^verbatim>\<open>range\<close> over it visits them. The slice
  \<open>leafStores\<close> holds pointers to stores of \<open>storesMap\<close>: it is the list of their keys.
\<close>

record Pipeline =
  vmType :: string
  blockType :: string
  requestedStartBlockNum :: uint64
  isBackprocessing :: bool
  preBlockHooks :: "(Clock \<Rightarrow> unit res) list"
  postJobHooks :: "(Clock \<Rightarrow> unit res) list"
  storesMap :: "(string \<times> Store) list"
  leafStores :: "string list"
  request :: Request
  moduleExecutors :: "Executor list"
  wasmOutputs :: "string \<rightharpoonup> bytes"
  storesSaveInterval :: uint64
  clock :: Clock
  moduleOutputs :: "ModuleOutput list"
  currentBlockRef :: BlockRef

text \<open>
  What the handler does to the outside is the list of the calls it makes, in order.
  The entry into \<^verbatim>\<open>saveStoresSnapshots\<close> is listed too: with no store it makes no
  other call.
\<close>

datatype call =
    Call_Update BlockRef
  | Call_preBlockHook nat Clock
  | Call_saveStoresSnapshots uint64
  | Call_WriteState string uint64
  | Call_Save
  | Call_run string
  | Call_respFunc Response
  | Call_Flush string
  | Call_postJobHook nat Clock

fun runPreBlockHooks :: "(Clock \<Rightarrow> unit res) list \<Rightarrow> nat \<Rightarrow> Clock \<Rightarrow> call list \<times> unit res" where
  "runPreBlockHooks [] i c = ([], Returns ())"
| "runPreBlockHooks (hook # hooks) i c =
     (case hook c of
        Returns _ \<Rightarrow>
          (let (cs, r) = runPreBlockHooks hooks (Suc i) c in (Call_preBlockHook i c # cs, r))
      | Fails err \<Rightarrow> ([Call_preBlockHook i c], Fails (Errorf ''pre block hook: %w'' [ArgError err]))
      | Panics v \<Rightarrow> ([Call_preBlockHook i c], Panics v))"

text \<open>The loop of \<^verbatim>\<open>saveStoresSnapshots\<close> over the stores, and the method.\<close>

fun writeStores ::
  "env \<Rightarrow> uint64 \<Rightarrow> (string \<times> Store) list \<Rightarrow> call list \<times> (string \<times> Store) list \<times> unit res" where
  "writeStores env lastBlock [] = ([], [], Returns ())"
| "writeStores env lastBlock ((k, builder) # rest) =
     (case WriteState env builder lastBlock of
        Fails err \<Rightarrow>
          ([Call_WriteState (Name builder) lastBlock], (k, builder) # rest,
           Fails (Errorf ''writing store '%s' state: %w'' [ArgString (Name builder), ArgError err]))
      | Panics v \<Rightarrow> ([Call_WriteState (Name builder) lastBlock], (k, builder) # rest, Panics v)
      | Returns _ \<Rightarrow>
          (let builder' = (if IsPartial env builder
                           then Roll env (Truncate env builder) lastBlock else builder);
               (cs, rest', r) = writeStores env lastBlock rest
           in (Call_WriteState (Name builder) lastBlock # cs, (k, builder') # rest', r)))"

definition saveStoresSnapshots :: "env \<Rightarrow> Pipeline \<Rightarrow> uint64 \<Rightarrow> call list \<times> Pipeline \<times> unit res" where
  "saveStoresSnapshots env p lastBlock =
     (case writeStores env lastBlock (storesMap p) of (cs, stores, r) \<Rightarrow>
        (Call_saveStoresSnapshots lastBlock # cs, p\<lparr>storesMap := stores\<rparr>, r))"

definition returnFailureProgress ::
  "env \<Rightarrow> library \<Rightarrow> ModuleOutput list \<Rightarrow> error \<Rightarrow> Executor \<Rightarrow> call list \<times> unit res" where
  "returnFailureProgress env lib outs err failedExecutor =
     (let modules =
            map (\<lambda>moduleOutput.
                   \<lparr>mp_Name = mo_Name moduleOutput,
                    mp_Type = Failed [] (mo_Logs moduleOutput) (mo_LogsTruncated moduleOutput)\<rparr>) outs
            @ [\<lparr>mp_Name = ex_Name failedExecutor,
                mp_Type = Failed (ErrorText lib err) (ex_Logs failedExecutor)
                            (ex_LogsTruncated failedExecutor)\<rparr>];
          resp = ModulesProgressResponse modules
      in ([Call_respFunc resp], respFunc env resp))"

text \<open>
  The loop over \<^verbatim>\<open>p.moduleExecutors\<close>. It returns the executors, the scratch map and
  the module outputs as the loop leaves them.
\<close>

fun runExecutors ::
  "env \<Rightarrow> library \<Rightarrow> Clock \<Rightarrow> bstream_Block \<Rightarrow> Executor list \<Rightarrow> (string \<rightharpoonup> bytes)
     \<Rightarrow> ModuleOutput list
     \<Rightarrow> call list \<times> Executor list \<times> (string \<rightharpoonup> bytes) \<times> ModuleOutput list \<times> unit res" where
  "runExecutors env lib clk block [] w outs = ([], [], w, outs, Returns ())"
| "runExecutors env lib clk block (executor # rest) w outs =
     (case run env executor w clk block of (executor', w', outcome) \<Rightarrow>
        (case outcome of
           Fails err \<Rightarrow>
             (let (cs, sent) = returnFailureProgress env lib outs err executor'
              in (Call_run (ex_Name executor) # cs, executor' # rest, w', outs,
                  (case sent of
                     Fails returnErr \<Rightarrow> Fails returnErr
                   | Panics v \<Rightarrow> Panics v
                   | Returns _ \<Rightarrow> Fails err)))
         | Panics v \<Rightarrow> ([Call_run (ex_Name executor)], executor' # rest, w', outs, Panics v)
         | Returns _ \<Rightarrow>
             (let outs' = outs @ [\<lparr>mo_Name = ex_Name executor', mo_Data = ex_Data executor',
                                    mo_Logs = ex_Logs executor',
                                    mo_LogsTruncated = ex_LogsTruncated executor'\<rparr>];
                  (cs, rest', w'', outs'', r) = runExecutors env lib clk block rest w' outs'
              in (Call_run (ex_Name executor) # cs, executor' # rest', w'', outs'', r))))"

definition returnOutputs ::
  "env \<Rightarrow> library \<Rightarrow> Pipeline \<Rightarrow> StepType \<Rightarrow> Cursor \<Rightarrow> call list \<times> unit res" where
  "returnOutputs env lib p step cursor =
     (let (cs1, r1) =
            (if length (moduleOutputs p) > 0
             then (let out = \<lparr>Outputs = moduleOutputs p, bsd_Clock = clock p,
                               bsd_Step = StepToProto lib step, bsd_Cursor = ToOpaque lib cursor\<rparr>;
                       resp = BlockScopedDataResponse out
                   in ([Call_respFunc resp],
                       (case respFunc env resp of
                          Fails err \<Rightarrow> Fails (Errorf ''calling return func: %w'' [ArgError err])
                        | Panics v \<Rightarrow> Panics v
                        | Returns _ \<Rightarrow> Returns ())))
             else ([], Returns ()))
      in case r1 of
           Returns _ \<Rightarrow>
             (if isBackprocessing p
              then (let progress =
                          map (\<lambda>store.
                                 \<lparr>mp_Name = Name store,
                                  mp_Type = ProcessedRanges
                                    [\<lparr>StartBlock = StoreInitialBlock store,
                                      EndBlock = Number (clock p)\<rparr>]\<rparr>)
                              (List.map_filter (map_of (storesMap p)) (leafStores p));
                        resp = ModulesProgressResponse progress
                    in (cs1 @ [Call_respFunc resp],
                        (case respFunc env resp of
                           Fails err \<Rightarrow> Fails (Errorf ''calling return func: %w'' [ArgError err])
                         | Panics v \<Rightarrow> Panics v
                         | Returns _ \<Rightarrow> Returns ())))
              else (cs1, Returns ()))
         | Fails err \<Rightarrow> (cs1, Fails err)
         | Panics v \<Rightarrow> (cs1, Panics v))"

definition assignSource :: "env \<Rightarrow> Pipeline \<Rightarrow> bstream_Block \<Rightarrow> Pipeline \<times> unit res" where
  "assignSource env p block =
     (if vmType p = ''wasm/rust-v1''
      then (case blk_Payload block of
              Fails err \<Rightarrow>
                (p, Fails (Errorf ''getting block %d %q: %w''
                             [ArgUint (blk_Number block), ArgString (blk_Id block), ArgError err]))
            | Panics v \<Rightarrow> (p, Panics v)
            | Returns blkBytes \<Rightarrow>
                (let clockBytes = Marshal env (clock p)
                 in (p\<lparr>wasmOutputs := (wasmOutputs p)
                          (blockType p \<mapsto> blkBytes, ''sf.substreams.v1.Clock'' \<mapsto> clockBytes)\<rparr>,
                     Returns ())))
      else (p, Panics (''unsupported vmType '' @ vmType p)))"

text \<open>
  The body of the handler is a sequence of steps; a step that does not return ends it
  (\<^verbatim>\<open>return io.EOF\<close> is one of the error returns). \<open>made\<close> holds the calls made
  so far.
\<close>

fun runSteps ::
  "(Pipeline \<Rightarrow> call list \<times> Pipeline \<times> unit res) list \<Rightarrow> call list \<Rightarrow> Pipeline
     \<Rightarrow> call list \<times> Pipeline \<times> unit res" where
  "runSteps [] made p = (made, p, Returns ())"
| "runSteps (step # steps) made p =
     (case step p of (cs, p', r) \<Rightarrow>
        (case r of
           Returns _ \<Rightarrow> runSteps steps (made @ cs) p'
         | Fails err \<Rightarrow> (made @ cs, p', Fails err)
         | Panics v \<Rightarrow> (made @ cs, p', Panics v)))"

definition blockClock :: "bstream_Block \<Rightarrow> Clock" where
  "blockClock block = \<lparr>Number = blk_Number block, BlockId = blk_Id block, Timestamp = blk_Time block\<rparr>"

definition AsRef :: "bstream_Block \<Rightarrow> BlockRef" where
  "AsRef block = \<lparr>ID = blk_Id block, Num = blk_Number block\<rparr>"

definition setClock :: "bstream_Block \<Rightarrow> Pipeline \<Rightarrow> call list \<times> Pipeline \<times> unit res" where
  "setClock block p = ([], p\<lparr>clock := blockClock block, currentBlockRef := AsRef block\<rparr>, Returns ())"

definition updateCache :: "env \<Rightarrow> Pipeline \<Rightarrow> call list \<times> Pipeline \<times> unit res" where
  "updateCache env p =
     ([Call_Update (currentBlockRef p)], p,
      (case Update env (currentBlockRef p) of
         Fails err \<Rightarrow> Fails (Errorf ''updating module output cache: %w'' [ArgError err])
       | Panics v \<Rightarrow> Panics v
       | Returns _ \<Rightarrow> Returns ()))"

definition preBlockStep :: "Pipeline \<Rightarrow> call list \<times> Pipeline \<times> unit res" where
  "preBlockStep p = (case runPreBlockHooks (preBlockHooks p) 0 (clock p) of (cs, r) \<Rightarrow> (cs, p, r))"

definition resetOutputs :: "Pipeline \<Rightarrow> call list \<times> Pipeline \<times> unit res" where
  "resetOutputs p = ([], p\<lparr>moduleOutputs := [], wasmOutputs := Map.empty\<rparr>, Returns ())"

definition snapshotStep :: "env \<Rightarrow> Pipeline \<Rightarrow> call list \<times> Pipeline \<times> unit res" where
  "snapshotStep env p =
     (let isFirstRequestBlock = (requestedStartBlockNum p = Number (clock p));
          intervalReached = (storesSaveInterval p \<noteq> 0 \<and> Number (clock p) mod storesSaveInterval p = 0);
          isTemporaryStore = (isBackprocessing p \<and> Number (clock p) = StopBlockNum (request p)
                              \<and> StopBlockNum (request p) \<noteq> 0)
      in if \<not> isFirstRequestBlock \<and> (intervalReached \<or> isTemporaryStore)
         then (case saveStoresSnapshots env p (Number (clock p)) of (cs, p', r) \<Rightarrow>
                 (cs, p',
                  (case r of
                     Fails err \<Rightarrow> Fails (Errorf ''saving stores: %w'' [ArgError err])
                   | Panics v \<Rightarrow> Panics v
                   | Returns _ \<Rightarrow> Returns ())))
         else ([], p, Returns ()))"

definition stopStep :: "env \<Rightarrow> Pipeline \<Rightarrow> call list \<times> Pipeline \<times> unit res" where
  "stopStep env p =
     (if StopBlockNum (request p) \<le> Number (clock p) \<and> StopBlockNum (request p) \<noteq> 0
      then (if isBackprocessing p
            then ([Call_Save], p,
                  (case Save env of
                     Fails err \<Rightarrow> Fails (Errorf ''saving partial caches'' [])
                   | Panics v \<Rightarrow> Panics v
                   | Returns _ \<Rightarrow> Fails EOF))
            else ([], p, Fails EOF))
      else ([], p, Returns ()))"

definition typeAssertions :: "HandlerObj \<Rightarrow> Pipeline \<Rightarrow> call list \<times> Pipeline \<times> unit res" where
  "typeAssertions obj p =
     (case assertionPanic obj of
        Some v \<Rightarrow> ([], p, Panics v)
      | None \<Rightarrow> ([], p, Returns ()))"

definition assignSourceStep :: "env \<Rightarrow> bstream_Block \<Rightarrow> Pipeline \<Rightarrow> call list \<times> Pipeline \<times> unit res" where
  "assignSourceStep env block p =
     (case assignSource env p block of (p', r) \<Rightarrow>
        ([], p',
         (case r of
            Fails err \<Rightarrow> Fails (Errorf ''setting up sources: %w'' [ArgError err])
          | Panics v \<Rightarrow> Panics v
          | Returns _ \<Rightarrow> Returns ())))"

definition executorsStep ::
  "env \<Rightarrow> library \<Rightarrow> bstream_Block \<Rightarrow> Pipeline \<Rightarrow> call list \<times> Pipeline \<times> unit res" where
  "executorsStep env lib block p =
     (case runExecutors env lib (clock p) block (moduleExecutors p) (wasmOutputs p) (moduleOutputs p) of
        (cs, executors, w, outs, r) \<Rightarrow>
          (cs, p\<lparr>moduleExecutors := executors, wasmOutputs := w, moduleOutputs := outs\<rparr>, r))"

definition outputsStep ::
  "env \<Rightarrow> library \<Rightarrow> HandlerObj \<Rightarrow> Pipeline \<Rightarrow> call list \<times> Pipeline \<times> unit res" where
  "outputsStep env lib obj p =
     (if requestedStartBlockNum p \<le> Number (clock p)
      then (case returnOutputs env lib p (obj_Step obj) (obj_Cursor obj) of (cs, r) \<Rightarrow> (cs, p, r))
      else ([], p, Returns ()))"

definition flushStep :: "env \<Rightarrow> Pipeline \<Rightarrow> call list \<times> Pipeline \<times> unit res" where
  "flushStep env p =
     (map (\<lambda>(k, s). Call_Flush (Name s)) (storesMap p),
      p\<lparr>storesMap := map (\<lambda>(k, s). (k, Flush env s)) (storesMap p)\<rparr>,
      Returns ())"

text \<open>The body of the function literal that \<^verbatim>\<open>HandlerFactory\<close> returns.\<close>

definition handlerBody ::
  "env \<Rightarrow> library \<Rightarrow> Pipeline \<Rightarrow> bstream_Block \<Rightarrow> HandlerObj \<Rightarrow> call list \<times> Pipeline \<times> unit res" where
  "handlerBody env lib p block obj =
     runSteps [setClock block, updateCache env, preBlockStep, resetOutputs,
               snapshotStep env, stopStep env, typeAssertions obj,
               assignSourceStep env block, executorsStep env lib block,
               outputsStep env lib obj, flushStep env] [] p"

text \<open>
  The deferred function. \<^verbatim>\<open>recover()\<close> turns a panic of the body into the error
  that the handler returns, and when the handler is about to return an error the
  post-job hooks are called in order. An error that a hook returns is only logged. The
  hooks are called after \<^verbatim>\<open>recover()\<close>, in the same deferred function: a panic of
  a hook is not recovered, it ends the loop and the handler leaves by that panic.
\<close>

fun runPostJobHooks :: "(Clock \<Rightarrow> unit res) list \<Rightarrow> nat \<Rightarrow> Clock \<Rightarrow> call list \<times> string option" where
  "runPostJobHooks [] i c = ([], None)"
| "runPostJobHooks (hook # hooks) i c =
     (case hook c of
        Panics v \<Rightarrow> ([Call_postJobHook i c], Some v)
      | Fails err \<Rightarrow>
          (let (cs, r) = runPostJobHooks hooks (Suc i) c in (Call_postJobHook i c # cs, r))
      | Returns _ \<Rightarrow>
          (let (cs, r) = runPostJobHooks hooks (Suc i) c in (Call_postJobHook i c # cs, r)))"

definition recovered :: "bstream_Block \<Rightarrow> unit res \<Rightarrow> error option" where
  "recovered block r =
     (case r of
        Returns _ \<Rightarrow> None
      | Fails err \<Rightarrow> Some err
      | Panics v \<Rightarrow> Some (Errorf ''panic at block %d: %s'' [ArgUint (blk_Number block), ArgString v]))"

definition deferred ::
  "bstream_Block \<Rightarrow> call list \<times> Pipeline \<times> unit res \<Rightarrow> call list \<times> Pipeline \<times> unit res" where
  "deferred block body =
     (case body of (cs, p, r) \<Rightarrow>
        (case recovered block r of
           None \<Rightarrow> (cs, p, Returns ())
         | Some err \<Rightarrow>
             (case runPostJobHooks (postJobHooks p) 0 (clock p) of (hcs, hr) \<Rightarrow>
                (cs @ hcs, p,
                 (case hr of
                    None \<Rightarrow> Fails err
                  | Some v \<Rightarrow> Panics v)))))"

text \<open>
  The handler: the calls it makes, the pipeline as it leaves it, and how it ends, by
  returning nil (\<open>Returns ()\<close>), by returning an error, or by a panic.
\<close>

definition HandlerFunc ::
  "env \<Rightarrow> library \<Rightarrow> Pipeline \<Rightarrow> bstream_Block \<Rightarrow> HandlerObj \<Rightarrow> call list \<times> Pipeline \<times> unit res" where
  "HandlerFunc env lib p block obj = deferred block (handlerBody env lib p block obj)"

fun isBlockScopedData :: "call \<Rightarrow> bool" where
  "isBlockScopedData (Call_respFunc (BlockScopedDataResponse d)) = True"
| "isBlockScopedData c = False"

fun isRespFunc :: "call \<Rightarrow> bool" where
  "isRespFunc (Call_respFunc resp) = True"
| "isRespFunc c = False"

fun isRun :: "call \<Rightarrow> bool" where
  "isRun (Call_run n) = True"
| "isRun c = False"

fun isSnapshot :: "call \<Rightarrow> bool" where
  "isSnapshot (Call_saveStoresSnapshots n) = True"
| "isSnapshot c = False"

fun isPostJobHook :: "call \<Rightarrow> bool" where
  "isPostJobHook (Call_postJobHook i c) = True"
| "isPostJobHook c = False"

fun panics :: "'a res \<Rightarrow> bool" where
  "panics (Panics v) = True"
| "panics r = False"

section \<open>Auxiliary definitions\<close>

text \<open>
  The conditions of the handler under names of their own, the state after the loop
  over the executors, the fields that no step but the first changes, and the entries
  that the handler builds from an executor.
\<close>

definition snapshotDue :: "Pipeline \<Rightarrow> bool" where
  "snapshotDue p =
     (requestedStartBlockNum p \<noteq> Number (clock p)
      \<and> (storesSaveInterval p \<noteq> 0 \<and> Number (clock p) mod storesSaveInterval p = 0
         \<or> isBackprocessing p \<and> Number (clock p) = StopBlockNum (request p)
           \<and> StopBlockNum (request p) \<noteq> 0))"

definition stopReached :: "Pipeline \<Rightarrow> bool" where
  "stopReached p = (StopBlockNum (request p) \<le> Number (clock p) \<and> StopBlockNum (request p) \<noteq> 0)"

definition executed :: "env \<Rightarrow> library \<Rightarrow> bstream_Block \<Rightarrow> Pipeline \<Rightarrow> Pipeline" where
  "executed env lib block p =
     (case runExecutors env lib (clock p) block (moduleExecutors p) (wasmOutputs p) (moduleOutputs p) of
        (cs, executors, w, outs, r) \<Rightarrow>
          p\<lparr>moduleExecutors := executors, wasmOutputs := w, moduleOutputs := outs\<rparr>)"

definition frame :: "Pipeline \<Rightarrow> Pipeline \<Rightarrow> bool" where
  "frame p q =
     (clock q = clock p \<and> currentBlockRef q = currentBlockRef p
      \<and> requestedStartBlockNum q = requestedStartBlockNum p
      \<and> isBackprocessing q = isBackprocessing p
      \<and> preBlockHooks q = preBlockHooks p \<and> postJobHooks q = postJobHooks p
      \<and> leafStores q = leafStores p \<and> request q = request p
      \<and> vmType q = vmType p \<and> blockType q = blockType p
      \<and> storesSaveInterval q = storesSaveInterval p)"

definition moduleOutputOf :: "Executor \<Rightarrow> ModuleOutput" where
  "moduleOutputOf e =
     \<lparr>mo_Name = ex_Name e, mo_Data = ex_Data e, mo_Logs = ex_Logs e,
      mo_LogsTruncated = ex_LogsTruncated e\<rparr>"

definition failureResponse :: "library \<Rightarrow> ModuleOutput list \<Rightarrow> error \<Rightarrow> Executor \<Rightarrow> Response" where
  "failureResponse lib outs err failedExecutor =
     ModulesProgressResponse
       (map (\<lambda>moduleOutput.
               \<lparr>mp_Name = mo_Name moduleOutput,
                mp_Type = Failed [] (mo_Logs moduleOutput) (mo_LogsTruncated moduleOutput)\<rparr>) outs
        @ [\<lparr>mp_Name = ex_Name failedExecutor,
            mp_Type = Failed (ErrorText lib err) (ex_Logs failedExecutor)
                        (ex_LogsTruncated failedExecutor)\<rparr>])"

section \<open>Concrete runs\<close>

text \<open>
  A sub-request for the blocks 100 to 200 whose only output module is the store
  \<open>S\<close>, with a save interval of 50 and collaborators that all succeed; variants with
  a failing executor, with an unsupported VM type, with a response function that fails,
  with an output cache that cannot be saved, and with an unsupported VM type and two
  post-job hooks of which the first panics.
\<close>

definition exampleEnv :: env where
  "exampleEnv =
     \<lparr>Update = (\<lambda>ref. Returns ()),
      Save = Returns (),
      WriteState = (\<lambda>s n. Returns ()),
      IsPartial = (\<lambda>s. True),
      Truncate = (\<lambda>s. s\<lparr>contents := 0\<rparr>),
      Roll = (\<lambda>s n. s\<lparr>StoreInitialBlock := n\<rparr>),
      Flush = (\<lambda>s. s),
      run = (\<lambda>e w c b.
               (e\<lparr>ex_Logs := [''ran'']\<rparr>, w,
                if ex_Name e = ''bad'' then Fails (External ''trap'') else Returns ())),
      respFunc = (\<lambda>resp. Returns ()),
      Marshal = (\<lambda>c. [])\<rparr>"

definition exampleStore :: Store where
  "exampleStore = \<lparr>Name = ''S'', StoreInitialBlock = 100, contents = 0\<rparr>"

definition exampleExecutor :: "string \<Rightarrow> Executor" where
  "exampleExecutor n = \<lparr>ex_Name = n, ex_Logs = [], ex_LogsTruncated = False, ex_Data = StoreDeltas []\<rparr>"

definition examplePipeline :: Pipeline where
  "examplePipeline =
     \<lparr>vmType = ''wasm/rust-v1'', blockType = ''sf.test.Block'',
      requestedStartBlockNum = 100, isBackprocessing = True,
      preBlockHooks = [], postJobHooks = [\<lambda>c. Returns ()],
      storesMap = [(''S'', exampleStore)], leafStores = [''S''],
      request = \<lparr>StartBlockNum = 100, StartCursor = [], StopBlockNum = 200,
                  ProductionMode = False, OutputModules = [''S'']\<rparr>,
      moduleExecutors = [exampleExecutor ''S''],
      wasmOutputs = Map.empty, storesSaveInterval = 50,
      clock = \<lparr>Number = 0, BlockId = [], Timestamp = 0\<rparr>,
      moduleOutputs = [],
      currentBlockRef = \<lparr>ID = [], Num = 0\<rparr>\<rparr>"

definition failingPipeline :: Pipeline where
  "failingPipeline =
     examplePipeline\<lparr>moduleExecutors := [exampleExecutor ''M'', exampleExecutor ''bad'', exampleExecutor ''S'']\<rparr>"

definition nativePipeline :: Pipeline where
  "nativePipeline = examplePipeline\<lparr>vmType := ''native''\<rparr>"

definition brokenHookPipeline :: Pipeline where
  "brokenHookPipeline =
     nativePipeline\<lparr>postJobHooks := [\<lambda>c. Panics ''hook failed'', \<lambda>c. Returns ()]\<rparr>"

definition closedStreamEnv :: env where
  "closedStreamEnv = exampleEnv\<lparr>respFunc := (\<lambda>resp. Fails (External ''stream closed''))\<rparr>"

definition fullDiskEnv :: env where
  "fullDiskEnv = exampleEnv\<lparr>Save := Fails (External ''disk full'')\<rparr>"

definition blockAt :: "uint64 \<Rightarrow> bstream_Block" where
  "blockAt n = \<lparr>blk_Id = ''b'', blk_Number = n, blk_Time = 0, blk_Payload = Returns []\<rparr>"

definition exampleObj :: HandlerObj where
  "exampleObj =
     \<lparr>assertionPanic = None,
      obj_Cursor = \<lparr>Step = 1, Block = \<lparr>ID = ''b'', Num = 0\<rparr>\<rparr>,
      obj_Step = 1\<rparr>"

section \<open>Properties\<close>

subsection \<open>Service options\<close>

text \<open>
  C9. Calling \<^verbatim>\<open>WithBytesMeter\<close> with a nil meter installs the freshly constructed
  default meter, never nil; and whatever meter is passed, after the option has been
  applied to a Tier1Service or a Tier2Service, the service's \<^verbatim>\<open>bytesMeter\<close> field
  is not nil.
\<close>

theorem WithBytesMeter_never_nil:
  "WithBytesMeter nm None (Tier1Service s) = Tier1Service (s\<lparr>bytesMeter := Some nm\<rparr>)
   \<and> WithBytesMeter nm None (Tier2Service s) = Tier2Service (s\<lparr>bytesMeter := Some nm\<rparr>)
   \<and> serviceBytesMeter (WithBytesMeter nm bm (Tier1Service s)) \<noteq> None
   \<and> serviceBytesMeter (WithBytesMeter nm bm (Tier2Service s)) \<noteq> None"
  by (auto simp: WithBytesMeter_def Let_def)

theorem WithBytesMeter_never_nil_witness:
  "serviceBytesMeter (WithBytesMeter (Meter 0) None (Tier1Service exampleService)) = Some (Meter 0)
   \<and> serviceBytesMeter (WithBytesMeter (Meter 0) None (Tier2Service exampleService)) = Some (Meter 0)
   \<and> serviceBytesMeter (WithBytesMeter (Meter 0) (Some (Meter 7)) (Tier1Service exampleService)) \<noteq> None"
  using WithBytesMeter_never_nil [of "Meter 0" exampleService "Some (Meter 7)"]
  by simp

subsection \<open>Request resolver\<close>

text \<open>
  C3. Resolving the request's start block: a negative \<^verbatim>\<open>startBlockNum\<close> fails with
  an invalid-argument error; otherwise an empty cursor gives \<^verbatim>\<open>startBlockNum\<close>; a
  cursor that parses with a step matching irreversible or new gives the cursor's
  block number plus one (in \<^verbatim>\<open>uint64\<close> arithmetic); a cursor whose step matches undo
  (and neither of the former, which are tested first) gives the cursor's block number;
  a cursor that does not parse, or whose step matches none of the three, is an error.
\<close>

theorem resolveStartBlockNum_cases:
  "(sint (StartBlockNum req) < 0 \<longrightarrow>
      (\<exists>msg args. resolveStartBlockNum lib req = Inl (StatusError InvalidArgument msg args)))
   \<and> (0 \<le> sint (StartBlockNum req) \<and> StartCursor req = [] \<longrightarrow>
      resolveStartBlockNum lib req = Inr (StartBlockNum req))
   \<and> (0 \<le> sint (StartBlockNum req) \<and> StartCursor req \<noteq> []
        \<and> CursorFromOpaque lib (StartCursor req) = Inr c
        \<and> (Matches lib (Step c) (StepIrreversible lib) \<or> Matches lib (Step c) (StepNew lib)) \<longrightarrow>
      resolveStartBlockNum lib req = Inr (Num (Block c) + 1))
   \<and> (0 \<le> sint (StartBlockNum req) \<and> StartCursor req \<noteq> []
        \<and> CursorFromOpaque lib (StartCursor req) = Inr c
        \<and> \<not> Matches lib (Step c) (StepIrreversible lib) \<and> \<not> Matches lib (Step c) (StepNew lib)
        \<and> Matches lib (Step c) (StepUndo lib) \<longrightarrow>
      resolveStartBlockNum lib req = Inr (Num (Block c)))
   \<and> (0 \<le> sint (StartBlockNum req) \<and> StartCursor req \<noteq> []
        \<and> CursorFromOpaque lib (StartCursor req) = Inr c
        \<and> \<not> Matches lib (Step c) (StepIrreversible lib) \<and> \<not> Matches lib (Step c) (StepNew lib)
        \<and> \<not> Matches lib (Step c) (StepUndo lib) \<longrightarrow>
      (\<exists>e. resolveStartBlockNum lib req = Inl e))
   \<and> (0 \<le> sint (StartBlockNum req) \<and> StartCursor req \<noteq> []
        \<and> CursorFromOpaque lib (StartCursor req) = Inl pe \<longrightarrow>
      (\<exists>e. resolveStartBlockNum lib req = Inl e))"
  by (cases pe) (auto simp: resolveStartBlockNum_def)

theorem resolveStartBlockNum_cases_witness:
  "resolveStartBlockNum exampleLibrary (exampleRequest\<lparr>StartBlockNum := - 1\<rparr>)
     = Inl (StatusError InvalidArgument ''start block num must be positive'' [])
   \<and> resolveStartBlockNum exampleLibrary exampleRequest = Inr 50
   \<and> resolveStartBlockNum exampleLibrary (exampleRequest\<lparr>StartCursor := ''irr49''\<rparr>) = Inr 50
   \<and> resolveStartBlockNum exampleLibrary (exampleRequest\<lparr>StartCursor := ''new49''\<rparr>) = Inr 50
   \<and> resolveStartBlockNum exampleLibrary (exampleRequest\<lparr>StartCursor := ''undo49''\<rparr>) = Inr 49
   \<and> resolveStartBlockNum exampleLibrary (exampleRequest\<lparr>StartCursor := ''stalled49''\<rparr>)
       = Inl (Errorf ''invalid start cursor step'' [])
   \<and> resolveStartBlockNum exampleLibrary (exampleRequest\<lparr>StartCursor := ''garbage''\<rparr>)
       = Inl (StatusError InvalidArgument ''invalid start cursor %q: %s''
                [ArgCursor None, ArgString ''invalid cursor''])"
proof -
  have neg: "sint (StartBlockNum (exampleRequest\<lparr>StartBlockNum := - 1\<rparr>)) < 0"
    by simp
  have pos: "0 \<le> sint (StartBlockNum exampleRequest)"
    by (simp add: exampleRequest_def)
  note a = resolveStartBlockNum_cases
    [where lib = exampleLibrary and req = "exampleRequest\<lparr>StartBlockNum := - 1\<rparr>"]
  note b = resolveStartBlockNum_cases [where lib = exampleLibrary and req = exampleRequest]
  note c = resolveStartBlockNum_cases
    [where lib = exampleLibrary and req = "exampleRequest\<lparr>StartCursor := ''irr49''\<rparr>"
       and c = "\<lparr>Step = 16, Block = \<lparr>ID = ''x'', Num = 49\<rparr>\<rparr>"]
  note d = resolveStartBlockNum_cases
    [where lib = exampleLibrary and req = "exampleRequest\<lparr>StartCursor := ''new49''\<rparr>"
       and c = "\<lparr>Step = 1, Block = \<lparr>ID = ''x'', Num = 49\<rparr>\<rparr>"]
  note e = resolveStartBlockNum_cases
    [where lib = exampleLibrary and req = "exampleRequest\<lparr>StartCursor := ''undo49''\<rparr>"
       and c = "\<lparr>Step = 2, Block = \<lparr>ID = ''x'', Num = 49\<rparr>\<rparr>"]
  have f: "resolveStartBlockNum exampleLibrary (exampleRequest\<lparr>StartCursor := ''stalled49''\<rparr>)
       = Inl (Errorf ''invalid start cursor step'' [])"
    by (simp add: resolveStartBlockNum_def exampleLibrary_def exampleRequest_def)
  have g: "resolveStartBlockNum exampleLibrary (exampleRequest\<lparr>StartCursor := ''garbage''\<rparr>)
       = Inl (StatusError InvalidArgument ''invalid start cursor %q: %s''
                [ArgCursor None, ArgString ''invalid cursor''])"
    by (simp add: resolveStartBlockNum_def exampleLibrary_def exampleRequest_def)
  have a': "resolveStartBlockNum exampleLibrary (exampleRequest\<lparr>StartBlockNum := - 1\<rparr>)
     = Inl (StatusError InvalidArgument ''start block num must be positive'' [])"
    using a neg by (simp add: resolveStartBlockNum_def)
  have b': "resolveStartBlockNum exampleLibrary exampleRequest = Inr 50"
    using b pos by (simp add: exampleRequest_def)
  have c': "resolveStartBlockNum exampleLibrary (exampleRequest\<lparr>StartCursor := ''irr49''\<rparr>) = Inr 50"
    using c pos by (simp add: exampleRequest_def exampleLibrary_def)
  have d': "resolveStartBlockNum exampleLibrary (exampleRequest\<lparr>StartCursor := ''new49''\<rparr>) = Inr 50"
    using d pos by (simp add: exampleRequest_def exampleLibrary_def)
  have e': "resolveStartBlockNum exampleLibrary (exampleRequest\<lparr>StartCursor := ''undo49''\<rparr>) = Inr 49"
    using e pos by (simp add: exampleRequest_def exampleLibrary_def)
  show ?thesis
    using a' b' c' d' e' f g by simp
qed

text \<open>
  C4. Once the start block has resolved, \<^verbatim>\<open>BuildRequestDetails\<close> sets
  \<^verbatim>\<open>LinearHandoffBlockNum\<close> as follows. In production mode: the smaller of the stop
  block and the recent final block; the recent final block alone when the stop block
  is 0; an error when the recent final block is unavailable and the stop block is 0
  (and the stop block when it is unavailable and the stop block is not 0). In
  development mode: the smaller of the request's start block and the recent final
  block, or the start block when the recent final block is unavailable.
\<close>

theorem BuildRequestDetails_linearHandoff:
  assumes "resolveStartBlockNum lib req = Inr start"
  shows
  "(ProductionMode req \<and> final = Inr m \<and> StopBlockNum req \<noteq> 0 \<longrightarrow>
      (\<exists>rd. BuildRequestDetails lib req sub final = Inr rd
         \<and> LinearHandoffBlockNum rd = min (StopBlockNum req) m))
   \<and> (ProductionMode req \<and> final = Inr m \<and> StopBlockNum req = 0 \<longrightarrow>
      (\<exists>rd. BuildRequestDetails lib req sub final = Inr rd \<and> LinearHandoffBlockNum rd = m))
   \<and> (ProductionMode req \<and> final = Inl e \<and> StopBlockNum req = 0 \<longrightarrow>
      (\<exists>err. BuildRequestDetails lib req sub final = Inl err))
   \<and> (ProductionMode req \<and> final = Inl e \<and> StopBlockNum req \<noteq> 0 \<longrightarrow>
      (\<exists>rd. BuildRequestDetails lib req sub final = Inr rd
         \<and> LinearHandoffBlockNum rd = StopBlockNum req))
   \<and> (\<not> ProductionMode req \<and> final = Inr m \<longrightarrow>
      (\<exists>rd. BuildRequestDetails lib req sub final = Inr rd
         \<and> RequestStartBlockNum rd = start \<and> LinearHandoffBlockNum rd = min start m))
   \<and> (\<not> ProductionMode req \<and> final = Inl e \<longrightarrow>
      (\<exists>rd. BuildRequestDetails lib req sub final = Inr rd
         \<and> RequestStartBlockNum rd = start \<and> LinearHandoffBlockNum rd = start))"
  using assms by (auto simp: BuildRequestDetails_def minOf_def min_def Let_def)

theorem BuildRequestDetails_linearHandoff_witness:
  "resolveStartBlockNum exampleLibrary exampleRequest = Inr 50
   \<and> (\<exists>rd. BuildRequestDetails exampleLibrary (exampleRequest\<lparr>ProductionMode := True\<rparr>) False (Inr 80) = Inr rd
         \<and> LinearHandoffBlockNum rd = 80)
   \<and> (\<exists>rd. BuildRequestDetails exampleLibrary (exampleRequest\<lparr>ProductionMode := True, StopBlockNum := 0\<rparr>)
              False (Inr 80) = Inr rd \<and> LinearHandoffBlockNum rd = 80)
   \<and> (\<exists>err. BuildRequestDetails exampleLibrary (exampleRequest\<lparr>ProductionMode := True, StopBlockNum := 0\<rparr>)
              False (Inl (External ''no final block'')) = Inl err)
   \<and> (\<exists>rd. BuildRequestDetails exampleLibrary (exampleRequest\<lparr>ProductionMode := True\<rparr>)
              False (Inl (External ''no final block'')) = Inr rd \<and> LinearHandoffBlockNum rd = 110)
   \<and> (\<exists>rd. BuildRequestDetails exampleLibrary exampleRequest False (Inr 30) = Inr rd
         \<and> RequestStartBlockNum rd = 50 \<and> LinearHandoffBlockNum rd = 30)
   \<and> (\<exists>rd. BuildRequestDetails exampleLibrary exampleRequest False (Inl (External ''no final block'')) = Inr rd
         \<and> RequestStartBlockNum rd = 50 \<and> LinearHandoffBlockNum rd = 50)"
proof -
  have r: "resolveStartBlockNum exampleLibrary exampleRequest = Inr 50"
    by (simp add: resolveStartBlockNum_def exampleRequest_def)
  have rp: "resolveStartBlockNum exampleLibrary (exampleRequest\<lparr>ProductionMode := True\<rparr>) = Inr 50"
    by (simp add: resolveStartBlockNum_def exampleRequest_def)
  have rp0: "resolveStartBlockNum exampleLibrary (exampleRequest\<lparr>ProductionMode := True, StopBlockNum := 0\<rparr>) = Inr 50"
    by (simp add: resolveStartBlockNum_def exampleRequest_def)
  note a = BuildRequestDetails_linearHandoff [OF rp, where final = "Inr 80" and m = 80 and sub = False]
  note b = BuildRequestDetails_linearHandoff [OF rp0, where final = "Inr 80" and m = 80 and sub = False]
  note c = BuildRequestDetails_linearHandoff
    [OF rp0, where final = "Inl (External ''no final block'')" and e = "External ''no final block''" and sub = False]
  note d = BuildRequestDetails_linearHandoff
    [OF rp, where final = "Inl (External ''no final block'')" and e = "External ''no final block''" and sub = False]
  note e = BuildRequestDetails_linearHandoff [OF r, where final = "Inr 30" and m = 30 and sub = False]
  note f = BuildRequestDetails_linearHandoff
    [OF r, where final = "Inl (External ''no final block'')" and e = "External ''no final block''" and sub = False]
  have a': "\<exists>rd. BuildRequestDetails exampleLibrary (exampleRequest\<lparr>ProductionMode := True\<rparr>) False (Inr 80) = Inr rd
         \<and> LinearHandoffBlockNum rd = 80"
    using a by (simp add: exampleRequest_def)
  have b': "\<exists>rd. BuildRequestDetails exampleLibrary (exampleRequest\<lparr>ProductionMode := True, StopBlockNum := 0\<rparr>)
              False (Inr 80) = Inr rd \<and> LinearHandoffBlockNum rd = 80"
    using b by (simp add: exampleRequest_def)
  have c': "\<exists>err. BuildRequestDetails exampleLibrary (exampleRequest\<lparr>ProductionMode := True, StopBlockNum := 0\<rparr>)
              False (Inl (External ''no final block'')) = Inl err"
    using c by (simp add: exampleRequest_def)
  have d': "\<exists>rd. BuildRequestDetails exampleLibrary (exampleRequest\<lparr>ProductionMode := True\<rparr>)
              False (Inl (External ''no final block'')) = Inr rd \<and> LinearHandoffBlockNum rd = 110"
    using d by (simp add: exampleRequest_def)
  have e': "\<exists>rd. BuildRequestDetails exampleLibrary exampleRequest False (Inr 30) = Inr rd
         \<and> RequestStartBlockNum rd = 50 \<and> LinearHandoffBlockNum rd = 30"
    using e by (simp add: exampleRequest_def)
  have f': "\<exists>rd. BuildRequestDetails exampleLibrary exampleRequest False (Inl (External ''no final block'')) = Inr rd
         \<and> RequestStartBlockNum rd = 50 \<and> LinearHandoffBlockNum rd = 50"
    using f by (simp add: exampleRequest_def)
  show ?thesis
    using r a' b' c' d' e' f' by simp
qed

subsection \<open>Binding flags to environment variables\<close>

lemma kept_refl: "kept f f" by (simp add: kept_def)
lemma kept_trans: "kept f g \<Longrightarrow> kept g h \<Longrightarrow> kept f h" by (auto simp: kept_def)

lemma bindFlag_kept: "kept f (bindFlag os v f)"
  by (simp add: bindFlag_def kept_def Let_def)

lemma VisitAll_kept:
  assumes fn: "\<And>g. kept g (fn g)" and st: "st r = Some f"
  shows "\<exists>f'. VisitAll fn rs st r = Some f' \<and> kept f f'"
  using st
proof (induction rs arbitrary: st f)
  case Nil
  then show ?case by (auto intro: kept_refl)
next
  case (Cons a rs)
  show ?case
  proof (cases "st a")
    case None
    with Cons.IH [of st f] Cons.prems show ?thesis by simp
  next
    case (Some g)
    let ?st = "st(a \<mapsto> fn g)"
    have "\<exists>f1. ?st r = Some f1 \<and> kept f f1"
      using Cons.prems Some fn [of g] by (auto intro: kept_refl)
    then obtain f1 where f1: "?st r = Some f1" "kept f f1" by blast
    from Cons.IH [of ?st f1] f1(1)
    obtain f' where "VisitAll fn rs ?st r = Some f'" "kept f1 f'" by blast
    with f1 Some show ?thesis by (auto intro: kept_trans)
  qed
qed

lemma foldl_kept:
  assumes step: "\<And>cmd s g. cmd \<in> set cmds \<Longrightarrow> s r = Some g \<Longrightarrow> \<exists>g'. step s cmd r = Some g' \<and> kept g g'"
    and st: "st r = Some f"
  shows "\<exists>f'. foldl step st cmds r = Some f' \<and> kept f f'"
  using step st
proof (induction cmds arbitrary: st f)
  case Nil
  then show ?case by (auto intro: kept_refl)
next
  case (Cons c cs)
  from Cons.prems(1) [of c st f] Cons.prems(2)
  obtain f1 where f1: "step st c r = Some f1" "kept f f1" by auto
  have "\<exists>f'. foldl step (step st c) cs r = Some f' \<and> kept f1 f'"
    using Cons.IH [of "step st c" f1] Cons.prems(1) f1(1) by simp
  with f1 show ?case by (auto intro: kept_trans)
qed

lemma recurseCommands_kept:
  "st r = Some f \<Longrightarrow> \<exists>f'. recurseCommands os root prefix segments st r = Some f' \<and> kept f f'"
proof (induction os root prefix segments st arbitrary: f rule: recurseCommands.induct)
  case (1 os name pflags flags cmds prefix segments st)
  define segmentPrefix where "segmentPrefix = (if length segments > 0 then ToUpper os (Join segments ''_'') @ ''_'' else [])"
  define fn1 where "fn1 = (\<lambda>f. bindFlag os (flagVarName os prefix segmentPrefix ''GLOBAL_'' f) f)"
  define fn2 where "fn2 = (\<lambda>f. bindFlag os (flagVarName os prefix segmentPrefix ''CMD_'' f) f)"
  define st1 where "st1 = VisitAll fn1 pflags st"
  define st2 where "st2 = VisitAll fn2 flags st1"
  define step where "step = (\<lambda>s cmd. recurseCommands os cmd prefix (segments @ [cmd_Name cmd]) s)"
  have k1: "\<And>g. kept g (fn1 g)" and k2: "\<And>g. kept g (fn2 g)"
    by (simp_all add: fn1_def fn2_def bindFlag_kept)
  obtain f1 where f1: "st1 r = Some f1" "kept f f1"
    unfolding st1_def using VisitAll_kept [of fn1 st r f pflags] k1 "1.prems" by blast
  obtain f2 where f2: "st2 r = Some f2" "kept f1 f2"
    unfolding st2_def using VisitAll_kept [of fn2 st1 r f1 flags] k2 f1(1) by blast
  have "\<And>cmd s g. cmd \<in> set cmds \<Longrightarrow> s r = Some g \<Longrightarrow> \<exists>g'. step s cmd r = Some g' \<and> kept g g'"
    unfolding step_def
    using "1.IH" [OF segmentPrefix_def st1_def [unfolded fn1_def] st2_def [unfolded fn2_def]] by blast
  from foldl_kept [of cmds r step st2 f2, OF this f2(1)]
  obtain f' where "foldl step st2 cmds r = Some f'" "kept f2 f'"
    by blast
  moreover have "recurseCommands os (Command name pflags flags cmds) prefix segments st = foldl step st2 cmds"
    by (simp add: Let_def segmentPrefix_def st1_def st2_def step_def fn1_def fn2_def)
  ultimately show ?case
    using f1 f2 by (auto intro: kept_trans)
qed

text \<open>
  C10. Binding flags to the environment never overrides a flag set on the command
  line: every flag of the store keeps its \<^verbatim>\<open>Changed\<close> marker through
  \<^verbatim>\<open>recurseCommands\<close>, and a flag whose marker is set keeps its value, whatever the
  environment holds. In one visit, the value of a flag whose marker is set stays, and
  a flag whose marker is not set is assigned the value of a non-empty variable.
\<close>

theorem recurseCommands_keeps_changed_flags:
  assumes "st r = Some f"
  shows "(\<exists>f'. recurseCommands os root prefix segments st r = Some f'
            \<and> Changed f' = Changed f \<and> (Changed f \<longrightarrow> Value f' = Value f))
         \<and> (Changed f \<longrightarrow> Value (bindFlag os v f) = Value f)
         \<and> (\<not> Changed f \<and> Getenv os v \<noteq> [] \<longrightarrow>
              Value (bindFlag os v f) = ValueSet os (Value f) (Getenv os v))"
proof -
  obtain f' where "recurseCommands os root prefix segments st r = Some f'" "kept f f'"
    using recurseCommands_kept [of st r f os root prefix segments] assms by blast
  then show ?thesis
    by (auto simp: kept_def bindFlag_def Let_def)
qed

lemma exampleRun:
  "recurseCommands exampleOs exampleRoot ''SUBSTREAMS'' [] exampleFlags 0
     = Some \<lparr>flag_Name = ''config'', Usage = ''config file [LOADED FROM ENV]'', Value = ''from-cli'', Changed = True\<rparr>"
  "recurseCommands exampleOs exampleRoot ''SUBSTREAMS'' [] exampleFlags 1
     = Some \<lparr>flag_Name = ''start-block'', Usage = ''first block [LOADED FROM ENV]'', Value = ''42'', Changed = False\<rparr>"
  by (simp_all add: exampleRoot_def exampleFlags_def exampleOs_def bindFlag_def flagVarName_def
        asciiUpper_def ReplaceDash_def Let_def)

theorem recurseCommands_keeps_changed_flags_witness:
  "exampleFlags 0 = Some \<lparr>flag_Name = ''config'', Usage = ''config file'', Value = ''from-cli'', Changed = True\<rparr>
   \<and> Getenv exampleOs ''SUBSTREAMS_GLOBAL_CONFIG'' = ''from-env''
   \<and> (\<exists>f'. recurseCommands exampleOs exampleRoot ''SUBSTREAMS'' [] exampleFlags 0 = Some f'
         \<and> Changed f' \<and> Value f' = ''from-cli'')
   \<and> (\<exists>f'. recurseCommands exampleOs exampleRoot ''SUBSTREAMS'' [] exampleFlags 1 = Some f'
         \<and> \<not> Changed f' \<and> Value f' = ''42'')"
proof -
  have f0: "exampleFlags 0 = Some \<lparr>flag_Name = ''config'', Usage = ''config file'', Value = ''from-cli'', Changed = True\<rparr>"
    by (simp add: exampleFlags_def)
  have f1: "exampleFlags 1 = Some \<lparr>flag_Name = ''start-block'', Usage = ''first block'', Value = ''0'', Changed = False\<rparr>"
    by (simp add: exampleFlags_def)
  have env: "Getenv exampleOs ''SUBSTREAMS_GLOBAL_CONFIG'' = ''from-env''"
    by (simp add: exampleOs_def)
  have a: "\<exists>f'. recurseCommands exampleOs exampleRoot ''SUBSTREAMS'' [] exampleFlags 0 = Some f'
         \<and> Changed f' \<and> Value f' = ''from-cli''"
    using recurseCommands_keeps_changed_flags
      [where st = exampleFlags and r = 0 and os = exampleOs and root = exampleRoot
         and prefix = "''SUBSTREAMS''" and segments = "[]", OF f0]
    by simp
  have b: "\<exists>f'. recurseCommands exampleOs exampleRoot ''SUBSTREAMS'' [] exampleFlags 1 = Some f'
         \<and> \<not> Changed f' \<and> Value f' = ''42''"
    using recurseCommands_keeps_changed_flags
      [where st = exampleFlags and r = 1 and os = exampleOs and root = exampleRoot
         and prefix = "''SUBSTREAMS''" and segments = "[]", OF f1]
      exampleRun(2)
    by simp
  show ?thesis
    using f0 env a b by simp
qed

subsection \<open>The block handler, step by step\<close>

text \<open>
  What \<open>runSteps\<close> does with each step of the handler in front: these equations
  replace the unfolding of \<open>runSteps\<close>.
\<close>

lemma rs_setClock:
  "runSteps (setClock block # ss) made p =
     runSteps ss made (p\<lparr>clock := blockClock block, currentBlockRef := AsRef block\<rparr>)"
  by (simp add: setClock_def)

lemma rs_updateCache:
  "runSteps (updateCache env # ss) made p =
     (case Update env (currentBlockRef p) of
        Returns u \<Rightarrow> runSteps ss (made @ [Call_Update (currentBlockRef p)]) p
      | Fails err \<Rightarrow>
          (made @ [Call_Update (currentBlockRef p)], p,
           Fails (Errorf ''updating module output cache: %w'' [ArgError err]))
      | Panics v \<Rightarrow> (made @ [Call_Update (currentBlockRef p)], p, Panics v))"
  by (simp add: updateCache_def split: res.split)

lemma rs_preBlockStep:
  "runSteps (preBlockStep # ss) made p =
     (case snd (runPreBlockHooks (preBlockHooks p) 0 (clock p)) of
        Returns u \<Rightarrow> runSteps ss (made @ fst (runPreBlockHooks (preBlockHooks p) 0 (clock p))) p
      | Fails err \<Rightarrow> (made @ fst (runPreBlockHooks (preBlockHooks p) 0 (clock p)), p, Fails err)
      | Panics v \<Rightarrow> (made @ fst (runPreBlockHooks (preBlockHooks p) 0 (clock p)), p, Panics v))"
  by (cases "runPreBlockHooks (preBlockHooks p) 0 (clock p)")
     (simp add: preBlockStep_def split: res.split)

lemma rs_resetOutputs:
  "runSteps (resetOutputs # ss) made p =
     runSteps ss made (p\<lparr>moduleOutputs := [], wasmOutputs := Map.empty\<rparr>)"
  by (simp add: resetOutputs_def)

lemma snapshotStep_alt:
  "snapshotStep env p =
     (if snapshotDue p
      then (case saveStoresSnapshots env p (Number (clock p)) of (cs, p', r) \<Rightarrow>
              (cs, p',
               (case r of
                  Fails err \<Rightarrow> Fails (Errorf ''saving stores: %w'' [ArgError err])
                | Panics v \<Rightarrow> Panics v
                | Returns _ \<Rightarrow> Returns ())))
      else ([], p, Returns ()))"
  by (simp only: snapshotStep_def snapshotDue_def Let_def)

lemma rs_snapshotStep:
  "runSteps (snapshotStep env # ss) made p =
     (if snapshotDue p
      then (case snd (snd (writeStores env (Number (clock p)) (storesMap p))) of
              Returns u \<Rightarrow>
                runSteps ss
                  (made @ Call_saveStoresSnapshots (Number (clock p))
                     # fst (writeStores env (Number (clock p)) (storesMap p)))
                  (p\<lparr>storesMap := fst (snd (writeStores env (Number (clock p)) (storesMap p)))\<rparr>)
            | Fails err \<Rightarrow>
                (made @ Call_saveStoresSnapshots (Number (clock p))
                     # fst (writeStores env (Number (clock p)) (storesMap p)),
                 p\<lparr>storesMap := fst (snd (writeStores env (Number (clock p)) (storesMap p)))\<rparr>,
                 Fails (Errorf ''saving stores: %w'' [ArgError err]))
            | Panics v \<Rightarrow>
                (made @ Call_saveStoresSnapshots (Number (clock p))
                     # fst (writeStores env (Number (clock p)) (storesMap p)),
                 p\<lparr>storesMap := fst (snd (writeStores env (Number (clock p)) (storesMap p)))\<rparr>,
                 Panics v))
      else runSteps ss made p)"
  by (cases "writeStores env (Number (clock p)) (storesMap p)")
     (simp add: snapshotStep_alt saveStoresSnapshots_def split: res.split)

lemma rs_stopStep:
  "runSteps (stopStep env # ss) made p =
     (if stopReached p
      then (if isBackprocessing p
            then (case Save env of
                    Returns u \<Rightarrow> (made @ [Call_Save], p, Fails EOF)
                  | Fails err \<Rightarrow> (made @ [Call_Save], p, Fails (Errorf ''saving partial caches'' []))
                  | Panics v \<Rightarrow> (made @ [Call_Save], p, Panics v))
            else (made, p, Fails EOF))
      else runSteps ss made p)"
  by (simp add: stopStep_def stopReached_def split: res.split)

lemma rs_typeAssertions:
  "runSteps (typeAssertions obj # ss) made p =
     (case assertionPanic obj of
        Some v \<Rightarrow> (made, p, Panics v)
      | None \<Rightarrow> runSteps ss made p)"
  by (simp add: typeAssertions_def split: option.split)

lemma rs_assignSourceStep:
  "runSteps (assignSourceStep env block # ss) made p =
     (case snd (assignSource env p block) of
        Returns u \<Rightarrow> runSteps ss made (fst (assignSource env p block))
      | Fails err \<Rightarrow>
          (made, fst (assignSource env p block), Fails (Errorf ''setting up sources: %w'' [ArgError err]))
      | Panics v \<Rightarrow> (made, fst (assignSource env p block), Panics v))"
  by (cases "assignSource env p block")
     (simp add: assignSourceStep_def split: res.split)

lemma rs_executorsStep:
  "runSteps (executorsStep env lib block # ss) made p =
     (case snd (snd (snd (snd (runExecutors env lib (clock p) block (moduleExecutors p)
                                  (wasmOutputs p) (moduleOutputs p))))) of
        Returns u \<Rightarrow>
          runSteps ss
            (made @ fst (runExecutors env lib (clock p) block (moduleExecutors p)
                           (wasmOutputs p) (moduleOutputs p)))
            (executed env lib block p)
      | Fails err \<Rightarrow>
          (made @ fst (runExecutors env lib (clock p) block (moduleExecutors p)
                           (wasmOutputs p) (moduleOutputs p)),
           executed env lib block p, Fails err)
      | Panics v \<Rightarrow>
          (made @ fst (runExecutors env lib (clock p) block (moduleExecutors p)
                           (wasmOutputs p) (moduleOutputs p)),
           executed env lib block p, Panics v))"
  by (cases "runExecutors env lib (clock p) block (moduleExecutors p) (wasmOutputs p) (moduleOutputs p)")
     (simp add: executorsStep_def executed_def split: res.split)

lemma rs_outputsStep:
  "runSteps (outputsStep env lib obj # ss) made p =
     (if requestedStartBlockNum p \<le> Number (clock p)
      then (case snd (returnOutputs env lib p (obj_Step obj) (obj_Cursor obj)) of
              Returns u \<Rightarrow>
                runSteps ss (made @ fst (returnOutputs env lib p (obj_Step obj) (obj_Cursor obj))) p
            | Fails err \<Rightarrow>
                (made @ fst (returnOutputs env lib p (obj_Step obj) (obj_Cursor obj)), p, Fails err)
            | Panics v \<Rightarrow>
                (made @ fst (returnOutputs env lib p (obj_Step obj) (obj_Cursor obj)), p, Panics v))
      else runSteps ss made p)"
  by (cases "returnOutputs env lib p (obj_Step obj) (obj_Cursor obj)")
     (simp add: outputsStep_def split: res.split)

lemma rs_flushStep:
  "runSteps (flushStep env # ss) made p =
     runSteps ss (made @ map (\<lambda>(k, s). Call_Flush (Name s)) (storesMap p))
       (p\<lparr>storesMap := map (\<lambda>(k, s). (k, Flush env s)) (storesMap p)\<rparr>)"
  by (simp add: flushStep_def)

declare runSteps.simps(2) [simp del]

lemmas rs =
  rs_setClock rs_updateCache rs_preBlockStep rs_resetOutputs rs_snapshotStep rs_stopStep
  rs_typeAssertions rs_assignSourceStep rs_executorsStep rs_outputsStep rs_flushStep

lemma deferred_simps:
  "deferred block (cs, p, Returns u) = (cs, p, Returns ())"
  "deferred block (cs, p, Fails err) =
     (cs @ fst (runPostJobHooks (postJobHooks p) 0 (clock p)), p,
      (case snd (runPostJobHooks (postJobHooks p) 0 (clock p)) of
         None \<Rightarrow> Fails err
       | Some v \<Rightarrow> Panics v))"
  "deferred block (cs, p, Panics w) =
     (cs @ fst (runPostJobHooks (postJobHooks p) 0 (clock p)), p,
      (case snd (runPostJobHooks (postJobHooks p) 0 (clock p)) of
         None \<Rightarrow> Fails (Errorf ''panic at block %d: %s'' [ArgUint (blk_Number block), ArgString w])
       | Some v \<Rightarrow> Panics v))"
  by (simp_all add: deferred_def recovered_def split: prod.split)

lemma deferred_filter:
  assumes "\<And>hooks i c. filter P (fst (runPostJobHooks hooks i c)) = []"
  shows "filter P (fst (deferred block body)) = filter P (fst body)"
proof -
  obtain cs q r where b: "body = (cs, q, r)" by (cases body) auto
  show ?thesis
    by (cases r) (simp_all add: b deferred_simps assms)
qed

lemma blockClock_Number: "Number (blockClock block) = blk_Number block"
  by (simp add: blockClock_def)

lemma assignSource_frame:
  "clock (fst (assignSource env p block)) = clock p"
  "requestedStartBlockNum (fst (assignSource env p block)) = requestedStartBlockNum p"
  "isBackprocessing (fst (assignSource env p block)) = isBackprocessing p"
  "postJobHooks (fst (assignSource env p block)) = postJobHooks p"
  "moduleExecutors (fst (assignSource env p block)) = moduleExecutors p"
  "moduleOutputs (fst (assignSource env p block)) = moduleOutputs p"
  "storesMap (fst (assignSource env p block)) = storesMap p"
  "leafStores (fst (assignSource env p block)) = leafStores p"
  "request (fst (assignSource env p block)) = request p"
  by (simp_all add: assignSource_def Let_def split: res.split)


text \<open>Invariants of a sequence of steps, and its splitting in two.\<close>

lemma frame_refl: "frame p p"
  by (simp add: frame_def)

lemma frame_trans: "frame p q \<Longrightarrow> frame q r \<Longrightarrow> frame p r"
  by (simp add: frame_def)

lemma runSteps_inv:
  assumes step: "\<And>s m q. s \<in> set ss \<Longrightarrow> R m q \<Longrightarrow> R (m @ fst (s q)) (fst (snd (s q)))"
    and init: "R made p"
  shows "R (fst (runSteps ss made p)) (fst (snd (runSteps ss made p)))"
  using step init
proof (induction ss arbitrary: made p)
  case Nil
  then show ?case by simp
next
  case (Cons s ss)
  obtain cs q r where sp: "s p = (cs, q, r)"
    by (cases "s p") auto
  have R1: "R (made @ cs) q"
    using Cons.prems(1) [of s made p] Cons.prems(2) sp by simp
  show ?case
  proof (cases r)
    case (Returns u)
    have "R (fst (runSteps ss (made @ cs) q)) (fst (snd (runSteps ss (made @ cs) q)))"
      by (rule Cons.IH) (use Cons.prems(1) R1 in auto)
    with sp Returns show ?thesis by (simp add: runSteps.simps(2))
  next
    case (Fails e)
    with sp R1 show ?thesis by (simp add: runSteps.simps(2))
  next
    case (Panics v)
    with sp R1 show ?thesis by (simp add: runSteps.simps(2))
  qed
qed

lemma runSteps_filter:
  assumes "\<And>s q. s \<in> set ss \<Longrightarrow> filter P (fst (s q)) = []"
  shows "filter P (fst (runSteps ss made p)) = filter P made"
proof -
  have "(\<lambda>m q. filter P m = filter P made) (fst (runSteps ss made p)) (fst (snd (runSteps ss made p)))"
    by (rule runSteps_inv) (use assms in auto)
  then show ?thesis by simp
qed

lemma runSteps_frame:
  assumes "\<And>s q. s \<in> set ss \<Longrightarrow> frame q (fst (snd (s q)))"
  shows "frame p (fst (snd (runSteps ss made p)))"
proof -
  have "(\<lambda>m q. frame p q) (fst (runSteps ss made p)) (fst (snd (runSteps ss made p)))"
    by (rule runSteps_inv) (use assms in \<open>auto intro: frame_refl frame_trans\<close>)
  then show ?thesis by simp
qed

lemma runSteps_append:
  "runSteps (ss @ ts) made p =
     (case snd (snd (runSteps ss made p)) of
        Returns u \<Rightarrow> runSteps ts (fst (runSteps ss made p)) (fst (snd (runSteps ss made p)))
      | Fails e \<Rightarrow> runSteps ss made p
      | Panics v \<Rightarrow> runSteps ss made p)"
proof (induction ss arbitrary: made p)
  case Nil
  then show ?case by simp
next
  case (Cons s ss)
  obtain cs q r where sp: "s p = (cs, q, r)"
    by (cases "s p") auto
  show ?case
  proof (cases r)
    case (Returns u)
    have e1: "runSteps (s # ss) made p = runSteps ss (made @ cs) q"
      and e2: "runSteps ((s # ss) @ ts) made p = runSteps (ss @ ts) (made @ cs) q"
      using sp Returns by (simp_all add: runSteps.simps(2))
    show ?thesis
      unfolding e1 e2 by (rule Cons.IH)
  next
    case (Fails e)
    with sp show ?thesis by (simp add: runSteps.simps(2))
  next
    case (Panics v)
    with sp show ?thesis by (simp add: runSteps.simps(2))
  qed
qed

lemma runSteps_Returns_append:
  assumes "runSteps (ss @ ts) made p = (cs, q, Returns u)"
  shows "snd (snd (runSteps ss made p)) = Returns ()
         \<and> runSteps ts (fst (runSteps ss made p)) (fst (snd (runSteps ss made p))) = (cs, q, Returns u)"
proof (cases "snd (snd (runSteps ss made p))")
  case (Returns x)
  with assms show ?thesis by (simp add: runSteps_append)
next
  case (Fails e)
  with assms show ?thesis by (simp add: runSteps_append)
next
  case (Panics v)
  with assms show ?thesis by (simp add: runSteps_append)
qed

text \<open>The calls that each loop and each step can make, and the fields a step keeps.\<close>

lemma runPreBlockHooks_calls:
  "x \<in> set (fst (runPreBlockHooks hooks i c)) \<Longrightarrow> \<exists>j. x = Call_preBlockHook j c"
  by (induction hooks i c rule: runPreBlockHooks.induct)
     (auto split: res.splits prod.splits)

lemma runPreBlockHooks_Returns:
  "(snd (runPreBlockHooks hooks i c) = Returns ()) = list_all (\<lambda>hook. hook c = Returns ()) hooks"
  by (induction hooks i c rule: runPreBlockHooks.induct)
     (auto split: res.splits prod.splits)

lemma writeStores_calls:
  "x \<in> set (fst (writeStores env lastBlock stores)) \<Longrightarrow> \<exists>n. x = Call_WriteState n lastBlock"
  by (induction env lastBlock stores rule: writeStores.induct)
     (auto split: res.splits prod.splits)

lemma writeStores_Returns:
  "\<forall>s. WriteState env s n = Returns () \<Longrightarrow> snd (snd (writeStores env n stores)) = Returns ()"
  by (induction env n stores rule: writeStores.induct)
     (auto simp: Let_def split: res.splits prod.splits)

lemma runExecutors_calls:
  "x \<in> set (fst (runExecutors env lib clk block executors w outs)) \<Longrightarrow>
     (\<exists>n. x = Call_run n) \<or> (\<exists>ms. x = Call_respFunc (ModulesProgressResponse ms))"
  by (induction env lib clk block executors w outs rule: runExecutors.induct)
     (auto simp: returnFailureProgress_def Let_def split: res.splits prod.splits)

lemma runPostJobHooks_calls:
  "x \<in> set (fst (runPostJobHooks hooks i c)) \<Longrightarrow> \<exists>j. x = Call_postJobHook j c"
  by (induction hooks i c rule: runPostJobHooks.induct)
     (auto split: res.splits prod.splits)

lemma upt_Suc_front: "[i..<Suc (i + n)] = i # [Suc i..<Suc i + n]"
  by (simp add: upt_conv_Cons)

lemma runPostJobHooks_return:
  "list_all (\<lambda>hook. \<not> panics (hook c)) hooks \<Longrightarrow>
     runPostJobHooks hooks i c = (map (\<lambda>j. Call_postJobHook j c) [i..<i + length hooks], None)"
proof (induction hooks arbitrary: i)
  case Nil
  then show ?case by simp
next
  case (Cons hook hooks)
  have "[i..<i + length (hook # hooks)] = i # [Suc i..<Suc i + length hooks]"
    using upt_Suc_front [of i "length hooks"] by simp
  with Cons show ?case
    by (cases "hook c") simp_all
qed

lemma runPostJobHooks_panic:
  "list_all (\<lambda>hook. \<not> panics (hook c)) hs1 \<Longrightarrow> h c = Panics v \<Longrightarrow>
     runPostJobHooks (hs1 @ h # hs2) i c
       = (map (\<lambda>j. Call_postJobHook j c) [i..<Suc (i + length hs1)], Some v)"
proof (induction hs1 arbitrary: i)
  case Nil
  then show ?case by simp
next
  case (Cons hook hs1)
  have "[i..<Suc (i + length (hook # hs1))] = i # [Suc i..<Suc (Suc i + length hs1)]"
    using upt_Suc_front [of i "Suc (length hs1)"] by simp
  with Cons show ?case
    by (cases "hook c") simp_all
qed

lemma runPostJobHooks_None:
  "snd (runPostJobHooks hooks i c) = None \<Longrightarrow> list_all (\<lambda>hook. \<not> panics (hook c)) hooks"
  by (induction hooks i c rule: runPostJobHooks.induct)
     (auto split: res.splits prod.splits)

lemma returnOutputs_calls:
  "x \<in> set (fst (returnOutputs env lib p step cursor)) \<Longrightarrow> \<exists>resp. x = Call_respFunc resp"
  by (auto simp: returnOutputs_def Let_def split: res.splits if_splits)

lemma step_calls:
  "fst (updateCache env q) = [Call_Update (currentBlockRef q)]"
  "x \<in> set (fst (preBlockStep q)) \<Longrightarrow> \<exists>j. x = Call_preBlockHook j (clock q)"
  "fst (resetOutputs q) = []"
  "x \<in> set (fst (snapshotStep env q)) \<Longrightarrow>
     x = Call_saveStoresSnapshots (Number (clock q)) \<or> (\<exists>n. x = Call_WriteState n (Number (clock q)))"
  "x \<in> set (fst (stopStep env q)) \<Longrightarrow> x = Call_Save"
  "fst (typeAssertions obj q) = []"
  "fst (assignSourceStep env block q) = []"
  "x \<in> set (fst (executorsStep env lib block q)) \<Longrightarrow>
     (\<exists>n. x = Call_run n) \<or> (\<exists>ms. x = Call_respFunc (ModulesProgressResponse ms))"
  "x \<in> set (fst (outputsStep env lib obj q)) \<Longrightarrow> \<exists>resp. x = Call_respFunc resp"
  "x \<in> set (fst (flushStep env q)) \<Longrightarrow> \<exists>n. x = Call_Flush n"
proof -
  show "fst (updateCache env q) = [Call_Update (currentBlockRef q)]"
    by (simp add: updateCache_def)
  show "x \<in> set (fst (preBlockStep q)) \<Longrightarrow> \<exists>j. x = Call_preBlockHook j (clock q)"
    using runPreBlockHooks_calls [of x "preBlockHooks q" 0 "clock q"]
    by (cases "runPreBlockHooks (preBlockHooks q) 0 (clock q)") (simp add: preBlockStep_def)
  show "fst (resetOutputs q) = []"
    by (simp add: resetOutputs_def)
  show "x \<in> set (fst (snapshotStep env q)) \<Longrightarrow>
     x = Call_saveStoresSnapshots (Number (clock q)) \<or> (\<exists>n. x = Call_WriteState n (Number (clock q)))"
    using writeStores_calls [of x env "Number (clock q)" "storesMap q"]
    by (cases "writeStores env (Number (clock q)) (storesMap q)")
       (auto simp: snapshotStep_alt saveStoresSnapshots_def split: if_splits)
  show "x \<in> set (fst (stopStep env q)) \<Longrightarrow> x = Call_Save"
    by (auto simp: stopStep_def split: if_splits)
  show "fst (typeAssertions obj q) = []"
    by (simp add: typeAssertions_def split: option.split)
  show "fst (assignSourceStep env block q) = []"
    by (cases "assignSource env q block") (simp add: assignSourceStep_def)
  show "x \<in> set (fst (executorsStep env lib block q)) \<Longrightarrow>
     (\<exists>n. x = Call_run n) \<or> (\<exists>ms. x = Call_respFunc (ModulesProgressResponse ms))"
    using runExecutors_calls [of x env lib "clock q" block "moduleExecutors q" "wasmOutputs q" "moduleOutputs q"]
    by (cases "runExecutors env lib (clock q) block (moduleExecutors q) (wasmOutputs q) (moduleOutputs q)")
       (simp add: executorsStep_def)
  show "x \<in> set (fst (outputsStep env lib obj q)) \<Longrightarrow> \<exists>resp. x = Call_respFunc resp"
    using returnOutputs_calls [of x env lib q "obj_Step obj" "obj_Cursor obj"]
    by (cases "returnOutputs env lib q (obj_Step obj) (obj_Cursor obj)")
       (auto simp: outputsStep_def split: if_splits)
  show "x \<in> set (fst (flushStep env q)) \<Longrightarrow> \<exists>n. x = Call_Flush n"
    by (auto simp: flushStep_def)
qed

lemma step_frame:
  "frame q (fst (snd (updateCache env q)))"
  "frame q (fst (snd (preBlockStep q)))"
  "frame q (fst (snd (resetOutputs q)))"
  "frame q (fst (snd (snapshotStep env q)))"
  "frame q (fst (snd (stopStep env q)))"
  "frame q (fst (snd (typeAssertions obj q)))"
  "frame q (fst (snd (assignSourceStep env block q)))"
  "frame q (fst (snd (executorsStep env lib block q)))"
  "frame q (fst (snd (outputsStep env lib obj q)))"
  "frame q (fst (snd (flushStep env q)))"
proof -
  show "frame q (fst (snd (updateCache env q)))"
    by (simp add: updateCache_def frame_def)
  show "frame q (fst (snd (preBlockStep q)))"
    by (cases "runPreBlockHooks (preBlockHooks q) 0 (clock q)") (simp add: preBlockStep_def frame_def)
  show "frame q (fst (snd (resetOutputs q)))"
    by (simp add: resetOutputs_def frame_def)
  show "frame q (fst (snd (snapshotStep env q)))"
    by (cases "writeStores env (Number (clock q)) (storesMap q)")
       (simp add: snapshotStep_alt saveStoresSnapshots_def frame_def)
  show "frame q (fst (snd (stopStep env q)))"
    by (simp add: stopStep_def frame_def)
  show "frame q (fst (snd (typeAssertions obj q)))"
    by (simp add: typeAssertions_def frame_def split: option.split)
  show "frame q (fst (snd (assignSourceStep env block q)))"
    by (cases "assignSource env q block")
       (auto simp: assignSourceStep_def assignSource_def frame_def Let_def split: if_splits res.splits)
  show "frame q (fst (snd (executorsStep env lib block q)))"
    by (cases "runExecutors env lib (clock q) block (moduleExecutors q) (wasmOutputs q) (moduleOutputs q)")
       (simp add: executorsStep_def frame_def)
  show "frame q (fst (snd (outputsStep env lib obj q)))"
    by (cases "returnOutputs env lib q (obj_Step obj) (obj_Cursor obj)")
       (simp add: outputsStep_def frame_def)
  show "frame q (fst (snd (flushStep env q)))"
    by (simp add: flushStep_def frame_def)
qed

lemma no_run_loops:
  "filter isRun (fst (runPreBlockHooks hooks i c)) = []"
  "filter isRun (fst (writeStores env n stores)) = []"
  "filter isRun (fst (runPostJobHooks jhooks i c)) = []"
  by (auto simp: filter_empty_conv dest!: runPreBlockHooks_calls writeStores_calls runPostJobHooks_calls)

lemma no_resp_loops:
  "filter isRespFunc (fst (runPreBlockHooks hooks i c)) = []"
  "filter isRespFunc (fst (writeStores env n stores)) = []"
  "filter isRespFunc (fst (runPostJobHooks jhooks i c)) = []"
  by (auto simp: filter_empty_conv dest!: runPreBlockHooks_calls writeStores_calls runPostJobHooks_calls)

lemma no_snapshot_loops:
  "filter isSnapshot (fst (runPreBlockHooks hooks i c)) = []"
  "filter isSnapshot (fst (writeStores env n stores)) = []"
  "filter isSnapshot (fst (runPostJobHooks jhooks i c)) = []"
  by (auto simp: filter_empty_conv dest!: runPreBlockHooks_calls writeStores_calls runPostJobHooks_calls)

lemma no_run_step:
  "filter isRun (fst (updateCache env q)) = []"
  "filter isRun (fst (preBlockStep q)) = []"
  "filter isRun (fst (resetOutputs q)) = []"
  "filter isRun (fst (snapshotStep env q)) = []"
  "filter isRun (fst (stopStep env q)) = []"
  "filter isRun (fst (typeAssertions obj q)) = []"
  "filter isRun (fst (assignSourceStep env block q)) = []"
  "filter isRun (fst (outputsStep env lib obj q)) = []"
  "filter isRun (fst (flushStep env q)) = []"
  by (auto simp: filter_empty_conv step_calls(1,3,6,7) dest!: step_calls(2,4,5,8,9,10))

lemma no_resp_step:
  "filter isRespFunc (fst (updateCache env q)) = []"
  "filter isRespFunc (fst (preBlockStep q)) = []"
  "filter isRespFunc (fst (resetOutputs q)) = []"
  "filter isRespFunc (fst (snapshotStep env q)) = []"
  "filter isRespFunc (fst (stopStep env q)) = []"
  "filter isRespFunc (fst (typeAssertions obj q)) = []"
  "filter isRespFunc (fst (assignSourceStep env block q)) = []"
  "filter isRespFunc (fst (flushStep env q)) = []"
  by (auto simp: filter_empty_conv step_calls(1,3,6,7) dest!: step_calls(2,4,5,8,9,10))

lemma no_hook_step:
  "filter isPostJobHook (fst (updateCache env q)) = []"
  "filter isPostJobHook (fst (preBlockStep q)) = []"
  "filter isPostJobHook (fst (resetOutputs q)) = []"
  "filter isPostJobHook (fst (snapshotStep env q)) = []"
  "filter isPostJobHook (fst (stopStep env q)) = []"
  "filter isPostJobHook (fst (typeAssertions obj q)) = []"
  "filter isPostJobHook (fst (assignSourceStep env block q)) = []"
  "filter isPostJobHook (fst (executorsStep env lib block q)) = []"
  "filter isPostJobHook (fst (outputsStep env lib obj q)) = []"
  "filter isPostJobHook (fst (flushStep env q)) = []"
  by (auto simp: filter_empty_conv step_calls(1,3,6,7) dest!: step_calls(2,4,5,8,9,10))

lemma no_snapshot_step:
  "filter isSnapshot (fst (updateCache env q)) = []"
  "filter isSnapshot (fst (preBlockStep q)) = []"
  "filter isSnapshot (fst (resetOutputs q)) = []"
  "filter isSnapshot (fst (stopStep env q)) = []"
  "filter isSnapshot (fst (typeAssertions obj q)) = []"
  "filter isSnapshot (fst (assignSourceStep env block q)) = []"
  "filter isSnapshot (fst (executorsStep env lib block q)) = []"
  "filter isSnapshot (fst (outputsStep env lib obj q)) = []"
  "filter isSnapshot (fst (flushStep env q)) = []"
  by (auto simp: filter_empty_conv step_calls(1,3,6,7) dest!: step_calls(2,4,5,8,9,10))

lemma keeps_executors:
  "moduleExecutors (fst (snd (updateCache env q))) = moduleExecutors q"
  "moduleExecutors (fst (snd (preBlockStep q))) = moduleExecutors q"
  "moduleExecutors (fst (snd (resetOutputs q))) = moduleExecutors q"
  "moduleExecutors (fst (snd (snapshotStep env q))) = moduleExecutors q"
  "moduleExecutors (fst (snd (stopStep env q))) = moduleExecutors q"
  "moduleExecutors (fst (snd (typeAssertions obj q))) = moduleExecutors q"
  "moduleExecutors (fst (snd (assignSourceStep env block q))) = moduleExecutors q"
proof -
  show "moduleExecutors (fst (snd (updateCache env q))) = moduleExecutors q"
    by (simp add: updateCache_def)
  show "moduleExecutors (fst (snd (preBlockStep q))) = moduleExecutors q"
    by (cases "runPreBlockHooks (preBlockHooks q) 0 (clock q)") (simp add: preBlockStep_def)
  show "moduleExecutors (fst (snd (resetOutputs q))) = moduleExecutors q"
    by (simp add: resetOutputs_def)
  show "moduleExecutors (fst (snd (snapshotStep env q))) = moduleExecutors q"
    by (cases "writeStores env (Number (clock q)) (storesMap q)")
       (simp add: snapshotStep_alt saveStoresSnapshots_def)
  show "moduleExecutors (fst (snd (stopStep env q))) = moduleExecutors q"
    by (simp add: stopStep_def)
  show "moduleExecutors (fst (snd (typeAssertions obj q))) = moduleExecutors q"
    by (simp add: typeAssertions_def split: option.split)
  show "moduleExecutors (fst (snd (assignSourceStep env block q))) = moduleExecutors q"
    using assignSource_frame(5) [of env q block]
    by (cases "assignSource env q block") (simp add: assignSourceStep_def)
qed

lemma keeps_outputs:
  "moduleOutputs (fst (snd (snapshotStep env q))) = moduleOutputs q"
  "moduleOutputs (fst (snd (stopStep env q))) = moduleOutputs q"
  "moduleOutputs (fst (snd (typeAssertions obj q))) = moduleOutputs q"
  "moduleOutputs (fst (snd (assignSourceStep env block q))) = moduleOutputs q"
proof -
  show "moduleOutputs (fst (snd (snapshotStep env q))) = moduleOutputs q"
    by (cases "writeStores env (Number (clock q)) (storesMap q)")
       (simp add: snapshotStep_alt saveStoresSnapshots_def)
  show "moduleOutputs (fst (snd (stopStep env q))) = moduleOutputs q"
    by (simp add: stopStep_def)
  show "moduleOutputs (fst (snd (typeAssertions obj q))) = moduleOutputs q"
    by (simp add: typeAssertions_def split: option.split)
  show "moduleOutputs (fst (snd (assignSourceStep env block q))) = moduleOutputs q"
    using assignSource_frame(6) [of env q block]
    by (cases "assignSource env q block") (simp add: assignSourceStep_def)
qed

lemma body_frame:
  "frame (p\<lparr>clock := blockClock block, currentBlockRef := AsRef block\<rparr>)
     (fst (snd (handlerBody env lib p block obj)))"
  unfolding handlerBody_def rs_setClock
  by (rule runSteps_frame) (auto intro: step_frame)

lemma body_no_hooks:
  "filter isPostJobHook (fst (handlerBody env lib p block obj)) = []"
proof -
  have "filter isPostJobHook (fst (handlerBody env lib p block obj)) = filter isPostJobHook []"
    unfolding handlerBody_def rs_setClock
    by (rule runSteps_filter) (auto simp: no_hook_step)
  then show ?thesis by simp
qed

lemma HandlerFunc_calls:
  "fst (HandlerFunc env lib p block obj) =
     fst (handlerBody env lib p block obj)
     @ (case recovered block (snd (snd (handlerBody env lib p block obj))) of
          None \<Rightarrow> []
        | Some err \<Rightarrow> fst (runPostJobHooks (postJobHooks p) 0 (blockClock block)))"
proof -
  obtain cs q r where body: "handlerBody env lib p block obj = (cs, q, r)"
    by (cases "handlerBody env lib p block obj") auto
  have q: "postJobHooks q = postJobHooks p" "clock q = blockClock block"
    using body_frame [where p = p and block = block and env = env and lib = lib and obj = obj]
    by (simp_all add: body frame_def)
  show ?thesis
    by (cases r) (simp_all add: HandlerFunc_def body deferred_simps recovered_def q)
qed

lemma HandlerFunc_result:
  "snd (snd (HandlerFunc env lib p block obj)) =
     (case recovered block (snd (snd (handlerBody env lib p block obj))) of
        None \<Rightarrow> Returns ()
      | Some err \<Rightarrow>
          (case snd (runPostJobHooks (postJobHooks p) 0 (blockClock block)) of
             None \<Rightarrow> Fails err
           | Some v \<Rightarrow> Panics v))"
proof -
  obtain cs q r where body: "handlerBody env lib p block obj = (cs, q, r)"
    by (cases "handlerBody env lib p block obj") auto
  have q: "postJobHooks q = postJobHooks p" "clock q = blockClock block"
    using body_frame [where p = p and block = block and env = env and lib = lib and obj = obj]
    by (simp_all add: body frame_def)
  show ?thesis
    by (cases r) (simp_all add: HandlerFunc_def body deferred_simps recovered_def q)
qed

lemma HandlerFunc_returns:
  assumes "list_all (\<lambda>hook. \<not> panics (hook (blockClock block))) (postJobHooks p)"
  shows "snd (snd (HandlerFunc env lib p block obj)) =
           (case recovered block (snd (snd (handlerBody env lib p block obj))) of
              None \<Rightarrow> Returns ()
            | Some err \<Rightarrow> Fails err)"
  unfolding HandlerFunc_result
  by (simp add: runPostJobHooks_return [OF assms] split: option.split)

text \<open>The concrete runs, evaluated.\<close>

lemmas example_defs =
  failingPipeline_def brokenHookPipeline_def nativePipeline_def closedStreamEnv_def fullDiskEnv_def exampleEnv_def exampleStore_def exampleExecutor_def examplePipeline_def blockAt_def
  exampleObj_def exampleLibrary_def

lemmas eval_simps =
  HandlerFunc_def handlerBody_def rs deferred_simps snapshotDue_def stopReached_def
  blockClock_def AsRef_def assignSource_def executed_def returnOutputs_def
  returnFailureProgress_def List.map_filter_def Let_def

lemma run120:
  "fst (HandlerFunc exampleEnv exampleLibrary examplePipeline (blockAt 120) exampleObj) =
     [Call_Update \<lparr>ID = ''b'', Num = 120\<rparr>,
      Call_run ''S'',
      Call_respFunc (BlockScopedDataResponse
        \<lparr>Outputs = [\<lparr>mo_Name = ''S'', mo_Data = StoreDeltas [], mo_Logs = [''ran''],
                      mo_LogsTruncated = False\<rparr>],
         bsd_Clock = \<lparr>Number = 120, BlockId = ''b'', Timestamp = 0\<rparr>,
         bsd_Step = 1, bsd_Cursor = ''b''\<rparr>),
      Call_respFunc (ModulesProgressResponse
        [\<lparr>mp_Name = ''S'',
          mp_Type = ProcessedRanges [\<lparr>StartBlock = 100, EndBlock = 120\<rparr>]\<rparr>]),
      Call_Flush ''S'']"
  "snd (snd (HandlerFunc exampleEnv exampleLibrary examplePipeline (blockAt 120) exampleObj)) = Returns ()"
  by (simp_all add: example_defs eval_simps)

lemma run50:
  "fst (HandlerFunc exampleEnv exampleLibrary examplePipeline (blockAt 50) exampleObj) =
     [Call_Update \<lparr>ID = ''b'', Num = 50\<rparr>,
      Call_saveStoresSnapshots 50,
      Call_WriteState ''S'' 50,
      Call_run ''S'',
      Call_Flush ''S'']"
  by (simp add: example_defs eval_simps)

lemma run200:
  "fst (HandlerFunc exampleEnv exampleLibrary examplePipeline (blockAt 200) exampleObj) =
     [Call_Update \<lparr>ID = ''b'', Num = 200\<rparr>,
      Call_saveStoresSnapshots 200,
      Call_WriteState ''S'' 200,
      Call_Save,
      Call_postJobHook 0 \<lparr>Number = 200, BlockId = ''b'', Timestamp = 0\<rparr>]"
  "snd (snd (HandlerFunc exampleEnv exampleLibrary examplePipeline (blockAt 200) exampleObj)) = Fails EOF"
  by (simp_all add: example_defs eval_simps)

lemma run200_fullDisk:
  "snd (snd (HandlerFunc fullDiskEnv exampleLibrary examplePipeline (blockAt 200) exampleObj))
     = Fails (Errorf ''saving partial caches'' [])"
  by (simp add: example_defs eval_simps)

lemma native120:
  "snd (snd (handlerBody exampleEnv exampleLibrary nativePipeline (blockAt 120) exampleObj))
     = Panics ''unsupported vmType native''"
  "fst (handlerBody exampleEnv exampleLibrary nativePipeline (blockAt 120) exampleObj)
     = [Call_Update \<lparr>ID = ''b'', Num = 120\<rparr>]"
  by (simp_all add: example_defs eval_simps)

lemma broken120:
  "snd (snd (handlerBody exampleEnv exampleLibrary brokenHookPipeline (blockAt 120) exampleObj))
     = Panics ''unsupported vmType native''"
  "snd (snd (HandlerFunc exampleEnv exampleLibrary brokenHookPipeline (blockAt 120) exampleObj))
     = Panics ''hook failed''"
  "fst (HandlerFunc exampleEnv exampleLibrary brokenHookPipeline (blockAt 120) exampleObj)
     = [Call_Update \<lparr>ID = ''b'', Num = 120\<rparr>,
        Call_postJobHook 0 \<lparr>Number = 120, BlockId = ''b'', Timestamp = 0\<rparr>]"
  by (simp_all add: example_defs eval_simps)

lemma failing120:
  "snd (snd (HandlerFunc closedStreamEnv exampleLibrary failingPipeline (blockAt 120) exampleObj))
     = Fails (External ''stream closed'')"
  "run closedStreamEnv (exampleExecutor ''bad'') w (blockClock (blockAt 120)) (blockAt 120)
     = ((exampleExecutor ''bad'')\<lparr>ex_Logs := [''ran'']\<rparr>, w, Fails (External ''trap''))"
  by (simp_all add: example_defs eval_simps)

subsection \<open>Block-scoped data\<close>

lemma before_outputs:
  "frame q (fst (snd (runSteps [updateCache env, preBlockStep, resetOutputs, snapshotStep env,
                           stopStep env, typeAssertions obj, assignSourceStep env block,
                           executorsStep env lib block] [] q)))
   \<and> (\<forall>x \<in> set (fst (runSteps [updateCache env, preBlockStep, resetOutputs, snapshotStep env,
                           stopStep env, typeAssertions obj, assignSourceStep env block,
                           executorsStep env lib block] [] q)). \<not> isBlockScopedData x)"
proof (rule runSteps_inv [where R = "\<lambda>m q'. frame q q' \<and> (\<forall>x \<in> set m. \<not> isBlockScopedData x)"])
  show "frame q q \<and> (\<forall>x \<in> set []. \<not> isBlockScopedData x)"
    by (simp add: frame_refl)
next
  fix s m q'
  assume s: "s \<in> set [updateCache env, preBlockStep, resetOutputs, snapshotStep env,
                           stopStep env, typeAssertions obj, assignSourceStep env block,
                           executorsStep env lib block]"
    and R: "frame q q' \<and> (\<forall>x \<in> set m. \<not> isBlockScopedData x)"
  have "frame q' (fst (snd (s q')))"
    using s by (auto intro: step_frame)
  moreover have "\<forall>x \<in> set (fst (s q')). \<not> isBlockScopedData x"
    using s by (auto simp: step_calls(1,3,6,7) dest!: step_calls(2,4,5,8,9,10))
  ultimately show "frame q (fst (snd (s q'))) \<and> (\<forall>x \<in> set (m @ fst (s q')). \<not> isBlockScopedData x)"
    using R by (auto intro: frame_trans)
qed

lemma no_bsd_postJobHooks: "filter isBlockScopedData (fst (runPostJobHooks hooks i c)) = []"
  by (auto simp: filter_empty_conv dest!: runPostJobHooks_calls)

lemma no_bsd_flush: "filter isBlockScopedData (map (\<lambda>(k, s). Call_Flush (Name s)) stores) = []"
  by (auto simp: filter_empty_conv)

lemma bsd_returnOutputs:
  "filter isBlockScopedData (fst (returnOutputs env lib q step cursor)) =
     (if moduleOutputs q = [] then []
      else [Call_respFunc (BlockScopedDataResponse
              \<lparr>Outputs = moduleOutputs q, bsd_Clock = clock q,
               bsd_Step = StepToProto lib step, bsd_Cursor = ToOpaque lib cursor\<rparr>)])"
  by (simp add: returnOutputs_def Let_def split: res.split)

lemma deferred_calls:
  "\<exists>hs. fst (deferred block (cs, q, r)) = cs @ hs \<and> filter isBlockScopedData hs = []"
  by (cases r) (simp_all add: deferred_simps no_bsd_postJobHooks)

lemma handler_bsd:
  "filter isBlockScopedData (fst (HandlerFunc env lib p block obj)) = []
   \<or> (requestedStartBlockNum p \<le> blk_Number block
       \<and> (\<exists>d. filter isBlockScopedData (fst (HandlerFunc env lib p block obj))
                 = [Call_respFunc (BlockScopedDataResponse d)]
              \<and> bsd_Clock d = blockClock block))"
proof -
  define p0 where "p0 = p\<lparr>clock := blockClock block, currentBlockRef := AsRef block\<rparr>"
  define A where "A = [updateCache env, preBlockStep, resetOutputs, snapshotStep env,
                       stopStep env, typeAssertions obj, assignSourceStep env block,
                       executorsStep env lib block]"
  define cs where "cs = fst (runSteps A [] p0)"
  define q where "q = fst (snd (runSteps A [] p0))"
  define r where "r = snd (snd (runSteps A [] p0))"
  have A: "runSteps A [] p0 = (cs, q, r)"
    by (simp add: cs_def q_def r_def)
  have inv: "frame p0 q" "filter isBlockScopedData cs = []"
    using before_outputs [of p0 env obj block lib]
    by (simp_all add: A_def [symmetric] cs_def q_def filter_empty_conv)
  have q: "clock q = blockClock block" "requestedStartBlockNum q = requestedStartBlockNum p"
    using inv(1) by (simp_all add: frame_def p0_def)
  have body: "handlerBody env lib p block obj = runSteps (A @ [outputsStep env lib obj, flushStep env]) [] p0"
    by (simp add: handlerBody_def rs_setClock A_def p0_def)
  show ?thesis
  proof (cases r)
    case (Returns u)
    then have b: "handlerBody env lib p block obj = runSteps [outputsStep env lib obj, flushStep env] cs q"
      by (simp add: body runSteps_append A)
    obtain cs' q' r' where o: "runSteps [outputsStep env lib obj, flushStep env] cs q = (cs', q', r')"
      by (cases "runSteps [outputsStep env lib obj, flushStep env] cs q") auto
    have "filter isBlockScopedData cs' = []
       \<or> (requestedStartBlockNum p \<le> blk_Number block
           \<and> (\<exists>d. filter isBlockScopedData cs' = [Call_respFunc (BlockScopedDataResponse d)]
                 \<and> bsd_Clock d = blockClock block))"
      using o inv(2) q
      by (auto simp: rs_outputsStep rs_flushStep bsd_returnOutputs no_bsd_flush blockClock_def
          split: if_splits res.splits)
    moreover obtain hs where "fst (deferred block (cs', q', r')) = cs' @ hs" "filter isBlockScopedData hs = []"
      using deferred_calls by blast
    ultimately show ?thesis
      by (simp add: HandlerFunc_def b o)
  next
    case (Fails e)
    then have "handlerBody env lib p block obj = (cs, q, Fails e)"
      by (simp add: body runSteps_append A)
    then show ?thesis
      by (simp add: HandlerFunc_def deferred_simps inv(2) no_bsd_postJobHooks)
  next
    case (Panics v)
    then have "handlerBody env lib p block obj = (cs, q, Panics v)"
      by (simp add: body runSteps_append A)
    then show ?thesis
      by (simp add: HandlerFunc_def deferred_simps inv(2) no_bsd_postJobHooks)
  qed
qed

text \<open>
  C1. Whatever the state of the pipeline, the block and the collaborators, one call
  of the handler sends at most one \<^verbatim>\<open>BlockScopedData\<close> message, and it sends one only
  when the number of the block is at least \<^verbatim>\<open>requestedStartBlockNum\<close>; the clock
  of that message is the clock of the block.
\<close>

theorem handler_emits_at_most_one_BlockScopedData:
  "length (filter isBlockScopedData (fst (HandlerFunc env lib p block obj))) \<le> 1
   \<and> (\<forall>d. Call_respFunc (BlockScopedDataResponse d) \<in> set (fst (HandlerFunc env lib p block obj)) \<longrightarrow>
          requestedStartBlockNum p \<le> blk_Number block \<and> Number (bsd_Clock d) = blk_Number block)"
proof -
  let ?cs = "fst (HandlerFunc env lib p block obj)"
  have mem: "\<And>d. Call_respFunc (BlockScopedDataResponse d) \<in> set ?cs \<Longrightarrow>
                Call_respFunc (BlockScopedDataResponse d) \<in> set (filter isBlockScopedData ?cs)"
    by simp
  from handler_bsd [of env lib p block obj] show ?thesis
  proof
    assume e: "filter isBlockScopedData ?cs = []"
    then show ?thesis using mem by auto
  next
    assume "requestedStartBlockNum p \<le> blk_Number block
       \<and> (\<exists>d. filter isBlockScopedData ?cs = [Call_respFunc (BlockScopedDataResponse d)]
              \<and> bsd_Clock d = blockClock block)"
    then obtain d where d: "requestedStartBlockNum p \<le> blk_Number block"
        "filter isBlockScopedData ?cs = [Call_respFunc (BlockScopedDataResponse d)]"
        "bsd_Clock d = blockClock block"
      by blast
    have "\<And>d'. Call_respFunc (BlockScopedDataResponse d') \<in> set ?cs \<Longrightarrow> d' = d"
      using mem d(2) by auto
    with d show ?thesis by (auto simp: blockClock_def)
  qed
qed

text \<open>
  At block 120 of the sub-request the handler sends one such message; at block 50,
  below the start block, none.
\<close>

theorem handler_emits_at_most_one_BlockScopedData_witness:
  "length (filter isBlockScopedData
      (fst (HandlerFunc exampleEnv exampleLibrary examplePipeline (blockAt 120) exampleObj))) = 1
   \<and> requestedStartBlockNum examplePipeline \<le> blk_Number (blockAt 120)
   \<and> filter isBlockScopedData
      (fst (HandlerFunc exampleEnv exampleLibrary examplePipeline (blockAt 50) exampleObj)) = []"
proof -
  have "requestedStartBlockNum examplePipeline \<le> blk_Number (blockAt 120)"
    using handler_emits_at_most_one_BlockScopedData
      [of exampleEnv exampleLibrary examplePipeline "blockAt 120" exampleObj]
    by (auto simp: run120)
  then show ?thesis
    by (simp add: run120 run50)
qed

subsection \<open>Store snapshots\<close>

lemma after_snapshot:
  "filter isSnapshot (fst (runSteps [stopStep env, typeAssertions obj, assignSourceStep env block,
      executorsStep env lib block, outputsStep env lib obj, flushStep env] made q)) = filter isSnapshot made"
  by (rule runSteps_filter) (auto simp: no_snapshot_step)

lemma handler_snapshot:
  "filter isSnapshot (fst (HandlerFunc env lib p block obj)) =
     (if Update env (AsRef block) = Returns ()
         \<and> list_all (\<lambda>hook. hook (blockClock block) = Returns ()) (preBlockHooks p)
         \<and> requestedStartBlockNum p \<noteq> blk_Number block
         \<and> (storesSaveInterval p \<noteq> 0 \<and> blk_Number block mod storesSaveInterval p = 0
            \<or> isBackprocessing p \<and> blk_Number block = StopBlockNum (request p)
              \<and> StopBlockNum (request p) \<noteq> 0)
      then [Call_saveStoresSnapshots (blk_Number block)] else [])"
proof -
  have d: "filter isSnapshot (fst (HandlerFunc env lib p block obj))
           = filter isSnapshot (fst (handlerBody env lib p block obj))"
    unfolding HandlerFunc_def by (rule deferred_filter) (rule no_snapshot_loops)
  have due: "snapshotDue (p\<lparr>clock := blockClock block, currentBlockRef := AsRef block,
                             moduleOutputs := [], wasmOutputs := Map.empty\<rparr>) =
             (requestedStartBlockNum p \<noteq> blk_Number block
              \<and> (storesSaveInterval p \<noteq> 0 \<and> blk_Number block mod storesSaveInterval p = 0
               \<or> isBackprocessing p \<and> blk_Number block = StopBlockNum (request p)
                 \<and> StopBlockNum (request p) \<noteq> 0))"
    by (simp only: snapshotDue_def blockClock_def) simp
  have hooks: "(snd (runPreBlockHooks (preBlockHooks p) 0 (blockClock block)) = Returns ())
               = list_all (\<lambda>hook. hook (blockClock block) = Returns ()) (preBlockHooks p)"
    by (rule runPreBlockHooks_Returns)
  show ?thesis
    unfolding d handlerBody_def due [symmetric] hooks [symmetric]
    by (simp add: rs_setClock rs_updateCache rs_preBlockStep rs_resetOutputs rs_snapshotStep
          after_snapshot no_snapshot_loops blockClock_Number
        split: res.split)
qed

text \<open>
  C2, as the code has it. The handler calls \<^verbatim>\<open>saveStoresSnapshots\<close>, and then for
  the number of the block only, exactly when the update of the output cache and every
  pre-block hook have returned, the number of the block differs from
  \<^verbatim>\<open>requestedStartBlockNum\<close>, and either the save interval is not 0 and divides
  the number, or the pipeline is a sub-request and the number is the stop block, which
  is not 0. The test is \<^verbatim>\<open>!isFirstRequestBlock\<close>: a block below the start block
  is snapshotted like one above it.
\<close>

theorem snapshot_iff:
  "(Call_saveStoresSnapshots n \<in> set (fst (HandlerFunc env lib p block obj))) =
     (n = blk_Number block
      \<and> Update env (AsRef block) = Returns ()
      \<and> list_all (\<lambda>hook. hook (blockClock block) = Returns ()) (preBlockHooks p)
      \<and> requestedStartBlockNum p \<noteq> blk_Number block
      \<and> (storesSaveInterval p \<noteq> 0 \<and> blk_Number block mod storesSaveInterval p = 0
         \<or> isBackprocessing p \<and> blk_Number block = StopBlockNum (request p)
           \<and> StopBlockNum (request p) \<noteq> 0))"
proof -
  have "(Call_saveStoresSnapshots n \<in> set (fst (HandlerFunc env lib p block obj)))
        = (Call_saveStoresSnapshots n \<in> set (filter isSnapshot (fst (HandlerFunc env lib p block obj))))"
    by simp
  also have "\<dots> = (n = blk_Number block
      \<and> Update env (AsRef block) = Returns ()
      \<and> list_all (\<lambda>hook. hook (blockClock block) = Returns ()) (preBlockHooks p)
      \<and> requestedStartBlockNum p \<noteq> blk_Number block
      \<and> (storesSaveInterval p \<noteq> 0 \<and> blk_Number block mod storesSaveInterval p = 0
         \<or> isBackprocessing p \<and> blk_Number block = StopBlockNum (request p)
           \<and> StopBlockNum (request p) \<noteq> 0))"
    unfolding handler_snapshot by auto
  finally show ?thesis .
qed

text \<open>
  Block 150 is on the interval of 50 and is snapshotted; block 120 is not on it; block
  100 is on it, but is the first block of the request.
\<close>

theorem snapshot_iff_witness:
  "Call_saveStoresSnapshots 150
     \<in> set (fst (HandlerFunc exampleEnv exampleLibrary examplePipeline (blockAt 150) exampleObj))
   \<and> Call_saveStoresSnapshots 120
     \<notin> set (fst (HandlerFunc exampleEnv exampleLibrary examplePipeline (blockAt 120) exampleObj))
   \<and> Call_saveStoresSnapshots 100
     \<notin> set (fst (HandlerFunc exampleEnv exampleLibrary examplePipeline (blockAt 100) exampleObj))"
  using snapshot_iff [of 150 exampleEnv exampleLibrary examplePipeline "blockAt 150" exampleObj]
    snapshot_iff [of 120 exampleEnv exampleLibrary examplePipeline "blockAt 120" exampleObj]
    snapshot_iff [of 100 exampleEnv exampleLibrary examplePipeline "blockAt 100" exampleObj]
  by (simp add: example_defs AsRef_def)

text \<open>
  Block 50 is below the start block 100 and on the interval: the handler calls
  \<^verbatim>\<open>saveStoresSnapshots\<close> and writes the store.
\<close>

theorem snapshot_below_start_counterexample:
  "Call_saveStoresSnapshots 50
     \<in> set (fst (HandlerFunc exampleEnv exampleLibrary examplePipeline (blockAt 50) exampleObj))
   \<and> Call_WriteState ''S'' 50
     \<in> set (fst (HandlerFunc exampleEnv exampleLibrary examplePipeline (blockAt 50) exampleObj))
   \<and> blk_Number (blockAt 50) < requestedStartBlockNum examplePipeline"
  by (simp add: run50) (simp add: examplePipeline_def blockAt_def)

subsection \<open>A failing executor\<close>

lemma runExecutors_Returns:
  "runExecutors env lib clk block es w outs = (cs, es', w', outs', Returns u) \<Longrightarrow>
     outs' = outs @ map moduleOutputOf es' \<and> length es' = length es
     \<and> cs = map (\<lambda>e. Call_run (ex_Name e)) es"
proof (induction es arbitrary: w outs cs es' w' outs')
  case Nil
  then show ?case by simp
next
  case (Cons executor rest)
  obtain e1 w1 r1 where run: "run env executor w clk block = (e1, w1, r1)"
    by (cases "run env executor w clk block") auto
  show ?case
  proof (cases r1)
    case (Returns x)
    obtain cs2 es2 w2 outs2 r2 where rec:
      "runExecutors env lib clk block rest w1 (outs @ [moduleOutputOf e1]) = (cs2, es2, w2, outs2, r2)"
      by (cases "runExecutors env lib clk block rest w1 (outs @ [moduleOutputOf e1])") auto
    from Cons.prems run Returns rec have eqs:
      "cs = Call_run (ex_Name executor) # cs2" "es' = e1 # es2" "outs' = outs2" "r2 = Returns u"
      by (simp_all add: moduleOutputOf_def Let_def)
    have "outs2 = (outs @ [moduleOutputOf e1]) @ map moduleOutputOf es2 \<and> length es2 = length rest
          \<and> cs2 = map (\<lambda>e. Call_run (ex_Name e)) rest"
      using Cons.IH [of w1 "outs @ [moduleOutputOf e1]" cs2 es2 w2 outs2] rec eqs(4)
      by simp
    with eqs show ?thesis by simp
  next
    case (Fails e)
    with Cons.prems run show ?thesis
      by (simp add: returnFailureProgress_def Let_def split: res.splits)
  next
    case (Panics v)
    with Cons.prems run show ?thesis by simp
  qed
qed

lemma runExecutors_failure:
  assumes "runExecutors env lib clk block pre w outs = (cs1, pre', w1, outs1, Returns u)"
    and "run env failing w1 clk block = (failing', w2, Fails err)"
  shows "runExecutors env lib clk block (pre @ failing # post) w outs =
           (cs1 @ [Call_run (ex_Name failing), Call_respFunc (failureResponse lib outs1 err failing')],
            pre' @ failing' # post, w2, outs1,
            (case respFunc env (failureResponse lib outs1 err failing') of
               Returns u \<Rightarrow> Fails err
             | Fails returnErr \<Rightarrow> Fails returnErr
             | Panics v \<Rightarrow> Panics v))"
  using assms
proof (induction pre arbitrary: w outs cs1 pre')
  case Nil
  then show ?case
    by (simp add: returnFailureProgress_def failureResponse_def Let_def split: res.split)
next
  case (Cons e pre)
  obtain e1 wa r1 where run: "run env e w clk block = (e1, wa, r1)"
    by (cases "run env e w clk block") auto
  show ?case
  proof (cases r1)
    case (Returns x)
    obtain cs2 es2 wb outs2 r2 where rec:
      "runExecutors env lib clk block pre wa (outs @ [moduleOutputOf e1]) = (cs2, es2, wb, outs2, r2)"
      by (cases "runExecutors env lib clk block pre wa (outs @ [moduleOutputOf e1])") auto
    from Cons.prems(1) run Returns rec have eqs:
      "cs1 = Call_run (ex_Name e) # cs2" "pre' = e1 # es2" "outs1 = outs2" "r2 = Returns u" "w1 = wb"
      by (simp_all add: moduleOutputOf_def Let_def)
    have "runExecutors env lib clk block (pre @ failing # post) wa (outs @ [moduleOutputOf e1]) =
           (cs2 @ [Call_run (ex_Name failing), Call_respFunc (failureResponse lib outs2 err failing')],
            es2 @ failing' # post, w2, outs2,
            (case respFunc env (failureResponse lib outs2 err failing') of
               Returns u \<Rightarrow> Fails err
             | Fails returnErr \<Rightarrow> Fails returnErr
             | Panics v \<Rightarrow> Panics v))"
      using Cons.IH [of wa "outs @ [moduleOutputOf e1]" cs2 es2] rec eqs Cons.prems(2) by simp
    then show ?thesis
      using run Returns eqs by (simp add: moduleOutputOf_def Let_def)
  next
    case (Fails x)
    with Cons.prems(1) run show ?thesis
      by (simp add: returnFailureProgress_def Let_def split: res.splits)
  next
    case (Panics v)
    with Cons.prems(1) run show ?thesis by simp
  qed
qed

lemma reach_executors:
  assumes reach:
    "runSteps [setClock block, updateCache env, preBlockStep, resetOutputs, snapshotStep env,
               stopStep env, typeAssertions obj, assignSourceStep env block] [] p = (cs0, q, Returns u)"
  shows "frame (p\<lparr>clock := blockClock block, currentBlockRef := AsRef block\<rparr>) q"
    and "moduleOutputs q = []"
    and "moduleExecutors q = moduleExecutors p"
    and "filter isRespFunc cs0 = []"
    and "filter isRun cs0 = []"
proof -
  define p0 where "p0 = p\<lparr>clock := blockClock block, currentBlockRef := AsRef block\<rparr>"
  define B where "B = [updateCache env, preBlockStep, resetOutputs, snapshotStep env,
               stopStep env, typeAssertions obj, assignSourceStep env block]"
  define B2 where "B2 = [updateCache env, preBlockStep]"
  define B4 where "B4 = [snapshotStep env, stopStep env, typeAssertions obj, assignSourceStep env block]"
  have r: "runSteps B [] p0 = (cs0, q, Returns u)"
    using reach by (simp add: rs_setClock B_def p0_def)
  have "frame p0 (fst (snd (runSteps B [] p0)))"
    unfolding B_def by (rule runSteps_frame) (auto intro: step_frame)
  then have "frame p0 q"
    by (simp add: r)
  then show "frame (p\<lparr>clock := blockClock block, currentBlockRef := AsRef block\<rparr>) q"
    by (simp add: p0_def)
  have "filter isRespFunc (fst (runSteps B [] p0)) = filter isRespFunc []"
    unfolding B_def by (rule runSteps_filter) (auto simp: no_resp_step)
  then show "filter isRespFunc cs0 = []"
    by (simp add: r)
  have "filter isRun (fst (runSteps B [] p0)) = filter isRun []"
    unfolding B_def by (rule runSteps_filter) (auto simp: no_run_step)
  then show "filter isRun cs0 = []"
    by (simp add: r)
  have "(\<lambda>m q'. moduleExecutors q' = moduleExecutors p0)
          (fst (runSteps B [] p0)) (fst (snd (runSteps B [] p0)))"
    unfolding B_def by (rule runSteps_inv) (auto simp: keeps_executors)
  then have "moduleExecutors q = moduleExecutors p0"
    by (simp add: r)
  then show "moduleExecutors q = moduleExecutors p"
    by (simp add: p0_def)
  have split: "B = B2 @ resetOutputs # B4"
    by (simp add: B_def B2_def B4_def)
  define cs2 where "cs2 = fst (runSteps B2 [] p0)"
  define q2 where "q2 = fst (snd (runSteps B2 [] p0))"
  have r4: "runSteps B4 cs2 (q2\<lparr>moduleOutputs := [], wasmOutputs := Map.empty\<rparr>) = (cs0, q, Returns u)"
    using runSteps_Returns_append [of B2 "resetOutputs # B4" "[]" p0 cs0 q u] r
    by (simp add: split rs_resetOutputs cs2_def q2_def)
  have "(\<lambda>m q'. moduleOutputs q' = [])
          (fst (runSteps B4 cs2 (q2\<lparr>moduleOutputs := [], wasmOutputs := Map.empty\<rparr>)))
          (fst (snd (runSteps B4 cs2 (q2\<lparr>moduleOutputs := [], wasmOutputs := Map.empty\<rparr>))))"
    unfolding B4_def by (rule runSteps_inv) (auto simp: keeps_outputs)
  then show "moduleOutputs q = []"
    by (simp add: r4)
qed

text \<open>
  C5, as the code has it. Take a block for which the handler reaches the loop over the
  executors (in state \<open>q\<close>), the executors \<open>pre\<close> return and the next one,
  \<open>failing\<close>, returns the error \<open>err\<close>. Then the handler calls the response function
  exactly once, with a \<^verbatim>\<open>ModulesProgress\<close> message that lists each module of
  \<open>pre\<close> as failed with its logs, its truncation flag and no reason, and last the
  failing module as failed with the text of \<open>err\<close> as reason and its logs. The
  handler never returns nil. When no post-job hook panics, the handler returns
  \<open>err\<close> if that call returns; if the response function fails the handler returns
  the error of the response function instead, and if it panics the error made of that
  panic.
\<close>

theorem executor_failure_progress:
  assumes reach:
    "runSteps [setClock block, updateCache env, preBlockStep, resetOutputs, snapshotStep env,
               stopStep env, typeAssertions obj, assignSourceStep env block] [] p = (cs0, q, Returns ())"
    and execs: "moduleExecutors p = pre @ failing # post"
    and pre: "runExecutors env lib (blockClock block) block pre (wasmOutputs q) []
                = (cs1, pre', w1, outs1, Returns ())"
    and fail: "run env failing w1 (blockClock block) block = (failing', w2, Fails err)"
  shows
    "filter isRespFunc (fst (HandlerFunc env lib p block obj))
       = [Call_respFunc (ModulesProgressResponse
            (map (\<lambda>e. \<lparr>mp_Name = ex_Name e,
                        mp_Type = Failed [] (ex_Logs e) (ex_LogsTruncated e)\<rparr>) pre'
             @ [\<lparr>mp_Name = ex_Name failing',
                 mp_Type = Failed (ErrorText lib err) (ex_Logs failing') (ex_LogsTruncated failing')\<rparr>]))]
     \<and> (list_all (\<lambda>hook. \<not> panics (hook (blockClock block))) (postJobHooks p) \<longrightarrow>
        snd (snd (HandlerFunc env lib p block obj))
          = Fails (case respFunc env (ModulesProgressResponse
              (map (\<lambda>e. \<lparr>mp_Name = ex_Name e,
                          mp_Type = Failed [] (ex_Logs e) (ex_LogsTruncated e)\<rparr>) pre'
               @ [\<lparr>mp_Name = ex_Name failing',
                   mp_Type = Failed (ErrorText lib err) (ex_Logs failing') (ex_LogsTruncated failing')\<rparr>])) of
                   Returns u \<Rightarrow> err
                 | Fails returnErr \<Rightarrow> returnErr
                 | Panics v \<Rightarrow> Errorf ''panic at block %d: %s'' [ArgUint (blk_Number block), ArgString v]))
     \<and> snd (snd (HandlerFunc env lib p block obj)) \<noteq> Returns ()"
proof -
  define P where "P = [setClock block, updateCache env, preBlockStep, resetOutputs, snapshotStep env,
               stopStep env, typeAssertions obj, assignSourceStep env block]"
  note q = reach_executors [OF reach]
  have clk: "clock q = blockClock block"
    using q(1) by (simp add: frame_def)
  have outs1: "outs1 = map moduleOutputOf pre'" and cs1: "cs1 = map (\<lambda>e. Call_run (ex_Name e)) pre"
    using runExecutors_Returns [OF pre] by simp_all
  define resp where "resp = failureResponse lib outs1 err failing'"
  have resp: "resp = ModulesProgressResponse
            (map (\<lambda>e. \<lparr>mp_Name = ex_Name e,
                        mp_Type = Failed [] (ex_Logs e) (ex_LogsTruncated e)\<rparr>) pre'
             @ [\<lparr>mp_Name = ex_Name failing',
                 mp_Type = Failed (ErrorText lib err) (ex_Logs failing') (ex_LogsTruncated failing')\<rparr>])"
    by (simp add: resp_def failureResponse_def outs1 moduleOutputOf_def comp_def)
  have ex: "runExecutors env lib (clock q) block (moduleExecutors q) (wasmOutputs q) (moduleOutputs q) =
           (cs1 @ [Call_run (ex_Name failing), Call_respFunc resp],
            pre' @ failing' # post, w2, outs1,
            (case respFunc env resp of
               Returns u \<Rightarrow> Fails err
             | Fails returnErr \<Rightarrow> Fails returnErr
             | Panics v \<Rightarrow> Panics v))"
    using runExecutors_failure [OF pre fail, where post = post] by (simp add: clk q(2,3) execs resp_def)
  have body: "handlerBody env lib p block obj =
     runSteps [executorsStep env lib block, outputsStep env lib obj, flushStep env] cs0 q"
    using runSteps_append [of P "[executorsStep env lib block, outputsStep env lib obj, flushStep env]" "[]" p]
      reach
    by (simp add: handlerBody_def P_def)
  have nr: "filter isRespFunc cs1 = []"
    by (simp add: cs1 filter_empty_conv)
  have "filter isRespFunc (fst (handlerBody env lib p block obj)) = [Call_respFunc resp]
        \<and> recovered block (snd (snd (handlerBody env lib p block obj)))
          = Some (case respFunc env resp of
                 Returns u \<Rightarrow> err
               | Fails returnErr \<Rightarrow> returnErr
               | Panics v \<Rightarrow> Errorf ''panic at block %d: %s'' [ArgUint (blk_Number block), ArgString v])"
    unfolding body rs_executorsStep ex
    by (cases "respFunc env resp") (simp_all add: q(4) nr recovered_def)
  then have calls: "filter isRespFunc (fst (HandlerFunc env lib p block obj)) = [Call_respFunc resp]"
    and rec: "recovered block (snd (snd (handlerBody env lib p block obj)))
          = Some (case respFunc env resp of
                 Returns u \<Rightarrow> err
               | Fails returnErr \<Rightarrow> returnErr
               | Panics v \<Rightarrow> Errorf ''panic at block %d: %s'' [ArgUint (blk_Number block), ArgString v])"
    by (simp_all add: HandlerFunc_def deferred_filter no_resp_loops)
  have ret: "snd (snd (HandlerFunc env lib p block obj))
          = Fails (case respFunc env resp of
                 Returns u \<Rightarrow> err
               | Fails returnErr \<Rightarrow> returnErr
               | Panics v \<Rightarrow> Errorf ''panic at block %d: %s'' [ArgUint (blk_Number block), ArgString v])"
    if "list_all (\<lambda>hook. \<not> panics (hook (blockClock block))) (postJobHooks p)"
    by (simp add: HandlerFunc_returns [OF that] rec)
  have "snd (snd (HandlerFunc env lib p block obj)) \<noteq> Returns ()"
    unfolding HandlerFunc_result rec by (simp split: option.split)
  with calls ret show ?thesis
    unfolding resp [symmetric] by blast
qed

text \<open>
  With the executors \<open>M\<close>, \<open>bad\<close>, \<open>S\<close>, of which \<open>bad\<close> fails with
  \<open>trap\<close>: one message, \<open>M\<close> and \<open>bad\<close> marked failed, and the error
  \<open>trap\<close> returned.
\<close>

theorem executor_failure_progress_witness:
  "moduleExecutors failingPipeline = [exampleExecutor ''M''] @ exampleExecutor ''bad'' # [exampleExecutor ''S'']
   \<and> filter isRespFunc (fst (HandlerFunc exampleEnv exampleLibrary failingPipeline (blockAt 120) exampleObj))
     = [Call_respFunc (ModulesProgressResponse
          [\<lparr>mp_Name = ''M'', mp_Type = Failed [] [''ran''] False\<rparr>,
           \<lparr>mp_Name = ''bad'', mp_Type = Failed ''trap'' [''ran''] False\<rparr>])]
   \<and> list_all (\<lambda>hook. \<not> panics (hook (blockClock (blockAt 120)))) (postJobHooks failingPipeline)
   \<and> snd (snd (HandlerFunc exampleEnv exampleLibrary failingPipeline (blockAt 120) exampleObj))
     = Fails (External ''trap'')"
proof -
  define P where "P = [setClock (blockAt 120), updateCache exampleEnv, preBlockStep, resetOutputs,
      snapshotStep exampleEnv, stopStep exampleEnv, typeAssertions exampleObj,
      assignSourceStep exampleEnv (blockAt 120)]"
  define cs0 where "cs0 = fst (runSteps P [] failingPipeline)"
  define q where "q = fst (snd (runSteps P [] failingPipeline))"
  have "snd (snd (runSteps P [] failingPipeline)) = Returns ()"
    by (simp add: P_def example_defs eval_simps)
  then have reach: "runSteps P [] failingPipeline = (cs0, q, Returns ())"
    by (simp add: cs0_def q_def prod_eq_iff)
  have execs: "moduleExecutors failingPipeline
                 = [exampleExecutor ''M''] @ exampleExecutor ''bad'' # [exampleExecutor ''S'']"
    by (simp add: failingPipeline_def)
  have pre: "runExecutors exampleEnv exampleLibrary (blockClock (blockAt 120)) (blockAt 120)
               [exampleExecutor ''M''] (wasmOutputs q) []
             = ([Call_run ''M''], [(exampleExecutor ''M'')\<lparr>ex_Logs := [''ran'']\<rparr>], wasmOutputs q,
                [moduleOutputOf ((exampleExecutor ''M'')\<lparr>ex_Logs := [''ran'']\<rparr>)], Returns ())"
    by (simp add: exampleEnv_def exampleExecutor_def moduleOutputOf_def)
  have fail: "run exampleEnv (exampleExecutor ''bad'') (wasmOutputs q) (blockClock (blockAt 120)) (blockAt 120)
             = ((exampleExecutor ''bad'')\<lparr>ex_Logs := [''ran'']\<rparr>, wasmOutputs q, Fails (External ''trap''))"
    by (simp add: exampleEnv_def exampleExecutor_def)
  have hooks: "list_all (\<lambda>hook. \<not> panics (hook (blockClock (blockAt 120)))) (postJobHooks failingPipeline)"
    by (simp add: failingPipeline_def examplePipeline_def)
  from executor_failure_progress [OF reach [unfolded P_def] execs pre fail] execs hooks
  show ?thesis
    by (simp add: exampleEnv_def exampleExecutor_def exampleLibrary_def blockAt_def)
qed

text \<open>
  The same block with a response function that fails: the executor fails with
  \<open>trap\<close>, and the handler returns the error of the response function.
\<close>

theorem executor_error_not_returned_counterexample:
  "snd (snd (run closedStreamEnv (exampleExecutor ''bad'') Map.empty (blockClock (blockAt 120)) (blockAt 120)))
     = Fails (External ''trap'')
   \<and> snd (snd (HandlerFunc closedStreamEnv exampleLibrary failingPipeline (blockAt 120) exampleObj))
     = Fails (External ''stream closed'')
   \<and> snd (snd (HandlerFunc closedStreamEnv exampleLibrary failingPipeline (blockAt 120) exampleObj))
     \<noteq> Fails (External ''trap'')"
  by (simp add: failing120)

subsection \<open>The sub-request of a store\<close>





subsection \<open>The stop block\<close>

lemma upto_snapshot:
  fixes env p block
  defines "p0 \<equiv> p\<lparr>clock := blockClock block, currentBlockRef := AsRef block\<rparr>"
  defines "A \<equiv> [updateCache env, preBlockStep, resetOutputs, snapshotStep env]"
  shows "frame p0 (fst (snd (runSteps A [] p0)))"
    and "filter isRun (fst (runSteps A [] p0)) = []"
    and "filter isRespFunc (fst (runSteps A [] p0)) = []"
proof -
  show "frame p0 (fst (snd (runSteps A [] p0)))"
    unfolding A_def by (rule runSteps_frame) (auto intro: step_frame)
  have "filter isRun (fst (runSteps A [] p0)) = filter isRun []"
    unfolding A_def by (rule runSteps_filter) (auto simp: no_run_step)
  then show "filter isRun (fst (runSteps A [] p0)) = []"
    by simp
  have "filter isRespFunc (fst (runSteps A [] p0)) = filter isRespFunc []"
    unfolding A_def by (rule runSteps_filter) (auto simp: no_resp_step)
  then show "filter isRespFunc (fst (runSteps A [] p0)) = []"
    by simp
qed

lemma snapshotDue_fields:
  "snapshotDue (p\<lparr>clock := c, currentBlockRef := b, moduleOutputs := outs, wasmOutputs := w\<rparr>)
     = snapshotDue (p\<lparr>clock := c\<rparr>)"
  by (simp only: snapshotDue_def) simp

lemma saveStoresSnapshots_result:
  "snd (snd (saveStoresSnapshots env p n)) = snd (snd (writeStores env n (storesMap p)))"
  by (cases "writeStores env n (storesMap p)") (simp add: saveStoresSnapshots_def)

lemma upto_snapshot_result:
  "snd (snd (runSteps [updateCache env, preBlockStep, resetOutputs, snapshotStep env] []
               (p\<lparr>clock := blockClock block, currentBlockRef := AsRef block\<rparr>))) =
     (case Update env (AsRef block) of
        Returns u \<Rightarrow>
          (case snd (runPreBlockHooks (preBlockHooks p) 0 (blockClock block)) of
             Returns u \<Rightarrow>
               (if snapshotDue (p\<lparr>clock := blockClock block\<rparr>)
                then (case snd (snd (saveStoresSnapshots env p (blk_Number block))) of
                        Returns u \<Rightarrow> Returns ()
                      | Fails e \<Rightarrow> Fails (Errorf ''saving stores: %w'' [ArgError e])
                      | Panics v \<Rightarrow> Panics v)
                else Returns ())
           | Fails e \<Rightarrow> Fails e
           | Panics v \<Rightarrow> Panics v)
      | Fails e \<Rightarrow> Fails (Errorf ''updating module output cache: %w'' [ArgError e])
      | Panics v \<Rightarrow> Panics v)"
  unfolding saveStoresSnapshots_result
  by (simp add: rs_updateCache rs_preBlockStep rs_resetOutputs rs_snapshotStep
        snapshotDue_fields blockClock_Number split: res.split)

lemma runPreBlockHooks_Fails:
  "list_all (\<lambda>hook. hook c = Returns ()) hs1 \<Longrightarrow> h c = Fails e \<Longrightarrow>
     snd (runPreBlockHooks (hs1 @ h # hs2) i c) = Fails (Errorf ''pre block hook: %w'' [ArgError e])"
proof (induction hs1 arbitrary: i)
  case Nil
  then show ?case by simp
next
  case (Cons hook hs1)
  from Cons.prems have "snd (runPreBlockHooks (hs1 @ h # hs2) (Suc i) c)
                          = Fails (Errorf ''pre block hook: %w'' [ArgError e])"
    by (intro Cons.IH) simp_all
  with Cons.prems show ?case
    by (cases "runPreBlockHooks (hs1 @ h # hs2) (Suc i) c") simp
qed

lemma stop_body:
  fixes env p block
  defines "r \<equiv> snd (snd (runSteps [updateCache env, preBlockStep, resetOutputs, snapshotStep env] []
                            (p\<lparr>clock := blockClock block, currentBlockRef := AsRef block\<rparr>)))"
  assumes stop: "StopBlockNum (request p) \<le> blk_Number block" "StopBlockNum (request p) \<noteq> 0"
  shows "filter isRun (fst (handlerBody env lib p block obj)) = []"
    and "filter isRespFunc (fst (handlerBody env lib p block obj)) = []"
    and "snd (snd (handlerBody env lib p block obj)) =
          (case r of
             Returns u \<Rightarrow>
               (if isBackprocessing p
                then (case Save env of
                        Returns u \<Rightarrow> Fails EOF
                      | Fails err \<Rightarrow> Fails (Errorf ''saving partial caches'' [])
                      | Panics v \<Rightarrow> Panics v)
                else Fails EOF)
           | Fails e \<Rightarrow> Fails e
           | Panics v \<Rightarrow> Panics v)"
    and "r = Returns () \<Longrightarrow> isBackprocessing p \<Longrightarrow> Call_Save \<in> set (fst (handlerBody env lib p block obj))"
proof -
  define p0 where "p0 = p\<lparr>clock := blockClock block, currentBlockRef := AsRef block\<rparr>"
  define A where "A = [updateCache env, preBlockStep, resetOutputs, snapshotStep env]"
  define rest where "rest = [typeAssertions obj, assignSourceStep env block, executorsStep env lib block,
                             outputsStep env lib obj, flushStep env]"
  define cs where "cs = fst (runSteps A [] p0)"
  define q where "q = fst (snd (runSteps A [] p0))"
  have r: "r = snd (snd (runSteps A [] p0))"
    by (simp add: r_def A_def p0_def)
  have A: "runSteps A [] p0 = (cs, q, r)"
    by (simp add: cs_def q_def r)
  note u = upto_snapshot [where p = p and block = block and env = env, folded p0_def A_def]
  have fr: "frame p0 q" and nr: "filter isRun cs = []" and ns: "filter isRespFunc cs = []"
    using u(1-3) by (simp_all add: cs_def q_def)
  have q: "stopReached q" "isBackprocessing q = isBackprocessing p"
    using fr stop by (simp_all add: frame_def p0_def stopReached_def blockClock_Number)
  have body: "handlerBody env lib p block obj = runSteps (A @ stopStep env # rest) [] p0"
    by (simp add: handlerBody_def rs_setClock A_def rest_def p0_def)
  have cases: "handlerBody env lib p block obj =
     (case r of
        Returns u \<Rightarrow>
          (if isBackprocessing p
           then (case Save env of
                   Returns u \<Rightarrow> (cs @ [Call_Save], q, Fails EOF)
                 | Fails err \<Rightarrow> (cs @ [Call_Save], q, Fails (Errorf ''saving partial caches'' []))
                 | Panics v \<Rightarrow> (cs @ [Call_Save], q, Panics v))
           else (cs, q, Fails EOF))
      | Fails e \<Rightarrow> (cs, q, Fails e)
      | Panics v \<Rightarrow> (cs, q, Panics v))"
    by (cases r) (simp_all add: body runSteps_append A rs_stopStep q)
  show "filter isRun (fst (handlerBody env lib p block obj)) = []"
    unfolding cases by (simp add: nr split: res.split)
  show "filter isRespFunc (fst (handlerBody env lib p block obj)) = []"
    unfolding cases by (simp add: ns split: res.split)
  show "snd (snd (handlerBody env lib p block obj)) =
          (case r of
             Returns u \<Rightarrow>
               (if isBackprocessing p
                then (case Save env of
                        Returns u \<Rightarrow> Fails EOF
                      | Fails err \<Rightarrow> Fails (Errorf ''saving partial caches'' [])
                      | Panics v \<Rightarrow> Panics v)
                else Fails EOF)
           | Fails e \<Rightarrow> Fails e
           | Panics v \<Rightarrow> Panics v)"
    unfolding cases by (simp split: res.split)
  show "Call_Save \<in> set (fst (handlerBody env lib p block obj))"
    if "r = Returns ()" and "isBackprocessing p"
    unfolding cases using that by (simp split: res.split)
qed

text \<open>
  C7, as the code has it. At a block whose number is at least the stop block, the
  stop block not being 0, the handler never returns nil, runs no executor and sends no
  message. When no post-job hook panics, what it returns is this. If the update of the
  output cache, the pre-block hooks, \<^verbatim>\<open>saveStoresSnapshots\<close> when the snapshot is
  due and, in a sub-request, the save of the output caches return, the handler
  returns \<^verbatim>\<open>io.EOF\<close>, and in a sub-request it has called the save of the output
  caches. If one of them fails, the handler returns the error of the first that fails,
  wrapped as the code wraps it, not \<^verbatim>\<open>io.EOF\<close>: the error of the update, of the
  first pre-block hook that fails, of \<^verbatim>\<open>saveStoresSnapshots\<close>, or
  \<^verbatim>\<open>saving partial caches\<close> for the save of the output caches.
\<close>

theorem stop_block_ends_stream:
  assumes "StopBlockNum (request p) \<le> blk_Number block" and "StopBlockNum (request p) \<noteq> 0"
  shows "snd (snd (HandlerFunc env lib p block obj)) \<noteq> Returns ()
       \<and> filter isRun (fst (HandlerFunc env lib p block obj)) = []
       \<and> filter isRespFunc (fst (HandlerFunc env lib p block obj)) = []
       \<and> (list_all (\<lambda>hook. \<not> panics (hook (blockClock block))) (postJobHooks p) \<longrightarrow>
            (Update env (AsRef block) = Returns ()
               \<and> list_all (\<lambda>hook. hook (blockClock block) = Returns ()) (preBlockHooks p)
               \<and> (snapshotDue (p\<lparr>clock := blockClock block\<rparr>) \<longrightarrow>
                    snd (snd (saveStoresSnapshots env p (blk_Number block))) = Returns ())
               \<and> (isBackprocessing p \<longrightarrow> Save env = Returns ()) \<longrightarrow>
             snd (snd (HandlerFunc env lib p block obj)) = Fails EOF
             \<and> (isBackprocessing p \<longrightarrow> Call_Save \<in> set (fst (HandlerFunc env lib p block obj))))
          \<and> (\<forall>e. Update env (AsRef block) = Fails e \<longrightarrow>
                snd (snd (HandlerFunc env lib p block obj))
                  = Fails (Errorf ''updating module output cache: %w'' [ArgError e]))
          \<and> (\<forall>e hs1 h hs2.
                Update env (AsRef block) = Returns ()
                \<and> preBlockHooks p = hs1 @ h # hs2
                \<and> list_all (\<lambda>hook. hook (blockClock block) = Returns ()) hs1
                \<and> h (blockClock block) = Fails e \<longrightarrow>
                snd (snd (HandlerFunc env lib p block obj))
                  = Fails (Errorf ''pre block hook: %w'' [ArgError e]))
          \<and> (\<forall>e. Update env (AsRef block) = Returns ()
                \<and> list_all (\<lambda>hook. hook (blockClock block) = Returns ()) (preBlockHooks p)
                \<and> snapshotDue (p\<lparr>clock := blockClock block\<rparr>)
                \<and> snd (snd (saveStoresSnapshots env p (blk_Number block))) = Fails e \<longrightarrow>
                snd (snd (HandlerFunc env lib p block obj))
                  = Fails (Errorf ''saving stores: %w'' [ArgError e]))
          \<and> (\<forall>e. Update env (AsRef block) = Returns ()
                \<and> list_all (\<lambda>hook. hook (blockClock block) = Returns ()) (preBlockHooks p)
                \<and> (snapshotDue (p\<lparr>clock := blockClock block\<rparr>) \<longrightarrow>
                     snd (snd (saveStoresSnapshots env p (blk_Number block))) = Returns ())
                \<and> isBackprocessing p \<and> Save env = Fails e \<longrightarrow>
                snd (snd (HandlerFunc env lib p block obj))
                  = Fails (Errorf ''saving partial caches'' [])))"
proof -
  define r where "r = snd (snd (runSteps [updateCache env, preBlockStep, resetOutputs, snapshotStep env] []
                            (p\<lparr>clock := blockClock block, currentBlockRef := AsRef block\<rparr>)))"
  note b = stop_body [OF assms, where env = env and lib = lib and obj = obj, folded r_def]
  note r = upto_snapshot_result [where env = env and p = p and block = block, folded r_def]
  have hooks: "(snd (runPreBlockHooks (preBlockHooks p) 0 (blockClock block)) = Returns ())
               = list_all (\<lambda>hook. hook (blockClock block) = Returns ()) (preBlockHooks p)"
    by (rule runPreBlockHooks_Returns)
  have 1: "snd (snd (HandlerFunc env lib p block obj)) \<noteq> Returns ()"
    unfolding HandlerFunc_result b(3)
    by (simp add: recovered_def split: res.split option.split)
  have 2: "filter isRun (fst (HandlerFunc env lib p block obj)) = []"
    unfolding HandlerFunc_def using b(1) by (simp add: deferred_filter no_run_loops)
  have 3: "filter isRespFunc (fst (HandlerFunc env lib p block obj)) = []"
    unfolding HandlerFunc_def using b(2) by (simp add: deferred_filter no_resp_loops)
  have 4: "snd (snd (HandlerFunc env lib p block obj)) = Fails EOF
          \<and> (isBackprocessing p \<longrightarrow> Call_Save \<in> set (fst (HandlerFunc env lib p block obj)))"
    if h: "list_all (\<lambda>hook. \<not> panics (hook (blockClock block))) (postJobHooks p)"
      and "Update env (AsRef block) = Returns ()"
      and "list_all (\<lambda>hook. hook (blockClock block) = Returns ()) (preBlockHooks p)"
      and "snapshotDue (p\<lparr>clock := blockClock block\<rparr>) \<longrightarrow>
             snd (snd (saveStoresSnapshots env p (blk_Number block))) = Returns ()"
      and "isBackprocessing p \<longrightarrow> Save env = Returns ()"
  proof -
    have rr: "r = Returns ()"
      unfolding r using that(2-4) hooks by simp
    have "snd (snd (handlerBody env lib p block obj)) = Fails EOF"
      unfolding b(3) rr using that(5) by simp
    then have "snd (snd (HandlerFunc env lib p block obj)) = Fails EOF"
      by (simp add: HandlerFunc_returns [OF h] recovered_def)
    moreover have "Call_Save \<in> set (fst (HandlerFunc env lib p block obj))" if "isBackprocessing p"
      using b(4) [OF rr that] by (simp add: HandlerFunc_calls)
    ultimately show ?thesis by simp
  qed
  have 5: "snd (snd (HandlerFunc env lib p block obj))
             = Fails (Errorf ''updating module output cache: %w'' [ArgError e])"
    if h: "list_all (\<lambda>hook. \<not> panics (hook (blockClock block))) (postJobHooks p)"
      and "Update env (AsRef block) = Fails e" for e
  proof -
    have "r = Fails (Errorf ''updating module output cache: %w'' [ArgError e])"
      unfolding r using that(2) by simp
    then show ?thesis
      by (simp add: HandlerFunc_returns [OF h] b(3) recovered_def)
  qed
  have 6: "snd (snd (HandlerFunc env lib p block obj))
             = Fails (Errorf ''pre block hook: %w'' [ArgError e])"
    if h: "list_all (\<lambda>hook. \<not> panics (hook (blockClock block))) (postJobHooks p)"
      and "Update env (AsRef block) = Returns ()"
      and "preBlockHooks p = hs1 @ h # hs2"
      and "list_all (\<lambda>hook. hook (blockClock block) = Returns ()) hs1"
      and "h (blockClock block) = Fails e" for e hs1 h hs2
  proof -
    have "r = Fails (Errorf ''pre block hook: %w'' [ArgError e])"
      unfolding r
      using that(2-5)
        runPreBlockHooks_Fails [where c = "blockClock block" and ?hs1.0 = hs1 and h = h and e = e
          and ?hs2.0 = hs2 and i = 0]
      by simp
    then show ?thesis
      by (simp add: HandlerFunc_returns [OF h] b(3) recovered_def)
  qed
  have 7: "snd (snd (HandlerFunc env lib p block obj))
             = Fails (Errorf ''saving stores: %w'' [ArgError e])"
    if h: "list_all (\<lambda>hook. \<not> panics (hook (blockClock block))) (postJobHooks p)"
      and "Update env (AsRef block) = Returns ()"
      and "list_all (\<lambda>hook. hook (blockClock block) = Returns ()) (preBlockHooks p)"
      and "snapshotDue (p\<lparr>clock := blockClock block\<rparr>)"
      and "snd (snd (saveStoresSnapshots env p (blk_Number block))) = Fails e" for e
  proof -
    have "r = Fails (Errorf ''saving stores: %w'' [ArgError e])"
      unfolding r using that(2-5) hooks by simp
    then show ?thesis
      by (simp add: HandlerFunc_returns [OF h] b(3) recovered_def)
  qed
  have 8: "snd (snd (HandlerFunc env lib p block obj)) = Fails (Errorf ''saving partial caches'' [])"
    if h: "list_all (\<lambda>hook. \<not> panics (hook (blockClock block))) (postJobHooks p)"
      and "Update env (AsRef block) = Returns ()"
      and "list_all (\<lambda>hook. hook (blockClock block) = Returns ()) (preBlockHooks p)"
      and "snapshotDue (p\<lparr>clock := blockClock block\<rparr>) \<longrightarrow>
             snd (snd (saveStoresSnapshots env p (blk_Number block))) = Returns ()"
      and "isBackprocessing p" and "Save env = Fails e" for e
  proof -
    have rr: "r = Returns ()"
      unfolding r using that(2-4) hooks by simp
    have "snd (snd (handlerBody env lib p block obj)) = Fails (Errorf ''saving partial caches'' [])"
      unfolding b(3) rr using that(5,6) by simp
    then show ?thesis
      by (simp add: HandlerFunc_returns [OF h] recovered_def)
  qed
  from 1 2 3 4 5 6 7 8 show ?thesis by blast
qed

text \<open>
  At the stop block 200 of the sub-request the snapshot is due; everything returns, and
  the handler saves the output caches and returns \<^verbatim>\<open>io.EOF\<close>. When the save of
  the output caches fails instead, the handler returns \<^verbatim>\<open>saving partial caches\<close>.
\<close>

theorem stop_block_ends_stream_witness:
  "StopBlockNum (request examplePipeline) \<le> blk_Number (blockAt 200)
   \<and> StopBlockNum (request examplePipeline) \<noteq> 0
   \<and> list_all (\<lambda>hook. \<not> panics (hook (blockClock (blockAt 200)))) (postJobHooks examplePipeline)
   \<and> Update exampleEnv (AsRef (blockAt 200)) = Returns ()
   \<and> list_all (\<lambda>hook. hook (blockClock (blockAt 200)) = Returns ()) (preBlockHooks examplePipeline)
   \<and> snapshotDue (examplePipeline\<lparr>clock := blockClock (blockAt 200)\<rparr>)
   \<and> snd (snd (saveStoresSnapshots exampleEnv examplePipeline (blk_Number (blockAt 200)))) = Returns ()
   \<and> isBackprocessing examplePipeline
   \<and> Save exampleEnv = Returns ()
   \<and> snd (snd (HandlerFunc exampleEnv exampleLibrary examplePipeline (blockAt 200) exampleObj)) = Fails EOF
   \<and> Call_Save \<in> set (fst (HandlerFunc exampleEnv exampleLibrary examplePipeline (blockAt 200) exampleObj))
   \<and> filter isRun (fst (HandlerFunc exampleEnv exampleLibrary examplePipeline (blockAt 200) exampleObj)) = []
   \<and> filter isRespFunc (fst (HandlerFunc exampleEnv exampleLibrary examplePipeline (blockAt 200) exampleObj)) = []
   \<and> Save fullDiskEnv = Fails (External ''disk full'')
   \<and> snd (snd (HandlerFunc fullDiskEnv exampleLibrary examplePipeline (blockAt 200) exampleObj))
       = Fails (Errorf ''saving partial caches'' [])"
proof -
  have h: "StopBlockNum (request examplePipeline) \<le> blk_Number (blockAt 200)"
    "StopBlockNum (request examplePipeline) \<noteq> 0"
    by (simp_all add: examplePipeline_def blockAt_def)
  have hooks: "list_all (\<lambda>hook. \<not> panics (hook (blockClock (blockAt 200)))) (postJobHooks examplePipeline)"
    by (simp add: examplePipeline_def)
  have ok: "Update exampleEnv (AsRef (blockAt 200)) = Returns ()"
    "list_all (\<lambda>hook. hook (blockClock (blockAt 200)) = Returns ()) (preBlockHooks examplePipeline)"
    "snapshotDue (examplePipeline\<lparr>clock := blockClock (blockAt 200)\<rparr>)"
    "snd (snd (saveStoresSnapshots exampleEnv examplePipeline (blk_Number (blockAt 200)))) = Returns ()"
    "isBackprocessing examplePipeline"
    "Save exampleEnv = Returns ()"
    by (simp_all add: exampleEnv_def examplePipeline_def exampleStore_def blockAt_def blockClock_def
          snapshotDue_def saveStoresSnapshots_def)
  have full: "Update fullDiskEnv (AsRef (blockAt 200)) = Returns ()"
    "snd (snd (saveStoresSnapshots fullDiskEnv examplePipeline (blk_Number (blockAt 200)))) = Returns ()"
    "Save fullDiskEnv = Fails (External ''disk full'')"
    by (simp_all add: fullDiskEnv_def exampleEnv_def examplePipeline_def exampleStore_def blockAt_def
          saveStoresSnapshots_def)
  have 1: "snd (snd (HandlerFunc exampleEnv exampleLibrary examplePipeline (blockAt 200) exampleObj)) = Fails EOF
     \<and> Call_Save \<in> set (fst (HandlerFunc exampleEnv exampleLibrary examplePipeline (blockAt 200) exampleObj))
     \<and> filter isRun (fst (HandlerFunc exampleEnv exampleLibrary examplePipeline (blockAt 200) exampleObj)) = []
     \<and> filter isRespFunc (fst (HandlerFunc exampleEnv exampleLibrary examplePipeline (blockAt 200) exampleObj)) = []"
    using stop_block_ends_stream [OF h, of exampleEnv exampleLibrary exampleObj] hooks ok
    by blast
  have 2: "snd (snd (HandlerFunc fullDiskEnv exampleLibrary examplePipeline (blockAt 200) exampleObj))
       = Fails (Errorf ''saving partial caches'' [])"
    using stop_block_ends_stream [OF h, of fullDiskEnv exampleLibrary exampleObj] hooks ok(2,3,5) full
    by blast
  from 1 2 hooks ok h full(3) show ?thesis by blast
qed

text \<open>
  At the stop block 200, with an output cache that cannot be saved, the handler returns
  the error of the save.
\<close>

theorem stop_block_not_EOF_counterexample:
  "StopBlockNum (request examplePipeline) \<le> blk_Number (blockAt 200)
   \<and> StopBlockNum (request examplePipeline) \<noteq> 0
   \<and> snd (snd (HandlerFunc fullDiskEnv exampleLibrary examplePipeline (blockAt 200) exampleObj))
       = Fails (Errorf ''saving partial caches'' [])
   \<and> snd (snd (HandlerFunc fullDiskEnv exampleLibrary examplePipeline (blockAt 200) exampleObj))
       \<noteq> Fails EOF"
  by (simp add: run200_fullDisk) (simp add: examplePipeline_def blockAt_def)

subsection \<open>Panics and post-job hooks\<close>

text \<open>
  C8, as the code has it. The body calls no post-job hook, and when it returns nil the
  handler returns nil and calls none. When the body ends with an error or a panic, the
  post-job hooks are called in their order, with the clock of the block, after the calls
  of the body. If none of them panics, all of them are called and the handler returns
  an error: the error of the body, or for a panic \<open>v\<close> of the body the error
  \<^verbatim>\<open>panic at block %d: %s\<close>, formatted with the number of the block and \<open>v\<close>.
  So whenever the handler returns an error, every post-job hook has been called. If
  one of them panics, the hooks after the first that panics are not called and the
  handler leaves by the panic of that hook.
\<close>

theorem panic_recovered_and_hooks_run:
  "(list_all (\<lambda>hook. \<not> panics (hook (blockClock block))) (postJobHooks p) \<longrightarrow>
      (\<forall>v. snd (snd (handlerBody env lib p block obj)) = Panics v \<longrightarrow>
           snd (snd (HandlerFunc env lib p block obj))
             = Fails (Errorf ''panic at block %d: %s'' [ArgUint (blk_Number block), ArgString v]))
      \<and> (\<forall>err. snd (snd (handlerBody env lib p block obj)) = Fails err \<longrightarrow>
           snd (snd (HandlerFunc env lib p block obj)) = Fails err)
      \<and> (snd (snd (handlerBody env lib p block obj)) \<noteq> Returns () \<longrightarrow>
           fst (HandlerFunc env lib p block obj)
             = fst (handlerBody env lib p block obj)
               @ map (\<lambda>i. Call_postJobHook i (blockClock block)) [0..<length (postJobHooks p)]))
   \<and> (\<forall>err. snd (snd (HandlerFunc env lib p block obj)) = Fails err \<longrightarrow>
        fst (HandlerFunc env lib p block obj)
          = fst (handlerBody env lib p block obj)
            @ map (\<lambda>i. Call_postJobHook i (blockClock block)) [0..<length (postJobHooks p)])
   \<and> (\<forall>hs1 h hs2 w.
        snd (snd (handlerBody env lib p block obj)) \<noteq> Returns ()
        \<and> postJobHooks p = hs1 @ h # hs2
        \<and> list_all (\<lambda>hook. \<not> panics (hook (blockClock block))) hs1
        \<and> h (blockClock block) = Panics w \<longrightarrow>
        snd (snd (HandlerFunc env lib p block obj)) = Panics w
        \<and> fst (HandlerFunc env lib p block obj)
          = fst (handlerBody env lib p block obj)
            @ map (\<lambda>i. Call_postJobHook i (blockClock block)) [0..<Suc (length hs1)])
   \<and> (snd (snd (handlerBody env lib p block obj)) = Returns () \<longrightarrow>
        snd (snd (HandlerFunc env lib p block obj)) = Returns ()
        \<and> fst (HandlerFunc env lib p block obj) = fst (handlerBody env lib p block obj))
   \<and> filter isPostJobHook (fst (handlerBody env lib p block obj)) = []"
proof -
  let ?r = "snd (snd (handlerBody env lib p block obj))"
  let ?hooks = "runPostJobHooks (postJobHooks p) 0 (blockClock block)"
  let ?all = "map (\<lambda>i. Call_postJobHook i (blockClock block)) [0..<length (postJobHooks p)]"
  have rec: "?r \<noteq> Returns () \<Longrightarrow> \<exists>e. recovered block ?r = Some e"
    by (cases ?r) (simp_all add: recovered_def)
  have A: "(\<forall>v. ?r = Panics v \<longrightarrow>
           snd (snd (HandlerFunc env lib p block obj))
             = Fails (Errorf ''panic at block %d: %s'' [ArgUint (blk_Number block), ArgString v]))
      \<and> (\<forall>err. ?r = Fails err \<longrightarrow> snd (snd (HandlerFunc env lib p block obj)) = Fails err)
      \<and> (?r \<noteq> Returns () \<longrightarrow>
           fst (HandlerFunc env lib p block obj) = fst (handlerBody env lib p block obj) @ ?all)"
    if h: "list_all (\<lambda>hook. \<not> panics (hook (blockClock block))) (postJobHooks p)"
  proof -
    have "?hooks = (?all, None)"
      using h runPostJobHooks_return [where c = "blockClock block" and hooks = "postJobHooks p" and i = 0]
      by simp
    then show ?thesis
      using rec by (auto simp: HandlerFunc_returns [OF h] HandlerFunc_calls recovered_def)
  qed
  have B: "fst (HandlerFunc env lib p block obj) = fst (handlerBody env lib p block obj) @ ?all"
    if "snd (snd (HandlerFunc env lib p block obj)) = Fails err" for err
  proof -
    from that have r: "?r \<noteq> Returns ()" and n: "snd ?hooks = None"
      unfolding HandlerFunc_result
      by (auto simp: recovered_def split: res.splits option.splits)
    from runPostJobHooks_None [OF n]
    have h: "list_all (\<lambda>hook. \<not> panics (hook (blockClock block))) (postJobHooks p)" .
    from A [OF h] r show ?thesis by simp
  qed
  have C: "snd (snd (HandlerFunc env lib p block obj)) = Panics w
        \<and> fst (HandlerFunc env lib p block obj)
          = fst (handlerBody env lib p block obj)
            @ map (\<lambda>i. Call_postJobHook i (blockClock block)) [0..<Suc (length hs1)]"
    if "?r \<noteq> Returns ()" and "postJobHooks p = hs1 @ h # hs2"
      and "list_all (\<lambda>hook. \<not> panics (hook (blockClock block))) hs1"
      and "h (blockClock block) = Panics w" for hs1 h hs2 w
  proof -
    have "?hooks = (map (\<lambda>i. Call_postJobHook i (blockClock block)) [0..<Suc (length hs1)], Some w)"
      using that(2-4)
        runPostJobHooks_panic [where c = "blockClock block" and ?hs1.0 = hs1 and h = h and v = w
          and ?hs2.0 = hs2 and i = 0]
      by simp
    then show ?thesis
      using rec [OF that(1)] by (auto simp: HandlerFunc_result HandlerFunc_calls)
  qed
  have D: "snd (snd (HandlerFunc env lib p block obj)) = Returns ()
        \<and> fst (HandlerFunc env lib p block obj) = fst (handlerBody env lib p block obj)"
    if "?r = Returns ()"
    by (simp add: HandlerFunc_result HandlerFunc_calls that recovered_def)
  from A B C D body_no_hooks [of env lib p block obj] show ?thesis
    by blast
qed

text \<open>
  With the VM type \<open>native\<close> the body panics in \<^verbatim>\<open>assignSource\<close>; the one
  post-job hook returns, and the handler returns the panic as an error, after the call
  of the hook. With two post-job hooks of which the first panics, the handler leaves by
  the panic of that hook after the call of the first hook.
\<close>

theorem panic_recovered_and_hooks_run_witness:
  "list_all (\<lambda>hook. \<not> panics (hook (blockClock (blockAt 120)))) (postJobHooks nativePipeline)
   \<and> snd (snd (handlerBody exampleEnv exampleLibrary nativePipeline (blockAt 120) exampleObj))
     = Panics ''unsupported vmType native''
   \<and> snd (snd (HandlerFunc exampleEnv exampleLibrary nativePipeline (blockAt 120) exampleObj))
     = Fails (Errorf ''panic at block %d: %s'' [ArgUint 120, ArgString ''unsupported vmType native''])
   \<and> fst (HandlerFunc exampleEnv exampleLibrary nativePipeline (blockAt 120) exampleObj)
     = [Call_Update \<lparr>ID = ''b'', Num = 120\<rparr>,
        Call_postJobHook 0 \<lparr>Number = 120, BlockId = ''b'', Timestamp = 0\<rparr>]
   \<and> postJobHooks brokenHookPipeline = [] @ (\<lambda>c. Panics ''hook failed'') # [\<lambda>c. Returns ()]
   \<and> snd (snd (HandlerFunc exampleEnv exampleLibrary brokenHookPipeline (blockAt 120) exampleObj))
     = Panics ''hook failed''"
proof -
  have h: "list_all (\<lambda>hook. \<not> panics (hook (blockClock (blockAt 120)))) (postJobHooks nativePipeline)"
    by (simp add: nativePipeline_def examplePipeline_def)
  note t = panic_recovered_and_hooks_run
    [of "blockAt 120" nativePipeline exampleEnv exampleLibrary exampleObj]
  have r: "snd (snd (HandlerFunc exampleEnv exampleLibrary nativePipeline (blockAt 120) exampleObj))
     = Fails (Errorf ''panic at block %d: %s'' [ArgUint 120, ArgString ''unsupported vmType native''])"
    using t h native120(1) by (simp add: blockAt_def)
  have "fst (HandlerFunc exampleEnv exampleLibrary nativePipeline (blockAt 120) exampleObj)
     = [Call_Update \<lparr>ID = ''b'', Num = 120\<rparr>,
        Call_postJobHook 0 \<lparr>Number = 120, BlockId = ''b'', Timestamp = 0\<rparr>]"
    using t h native120
    by (simp add: nativePipeline_def examplePipeline_def blockClock_def blockAt_def)
  moreover have b: "postJobHooks brokenHookPipeline = [] @ (\<lambda>c. Panics ''hook failed'') # [\<lambda>c. Returns ()]"
    by (simp add: brokenHookPipeline_def)
  moreover have "snd (snd (HandlerFunc exampleEnv exampleLibrary brokenHookPipeline (blockAt 120) exampleObj))
     = Panics ''hook failed''"
    using b
      panic_recovered_and_hooks_run
        [where block = "blockAt 120" and p = brokenHookPipeline and env = exampleEnv
           and lib = exampleLibrary and obj = exampleObj,
         THEN conjunct2, THEN conjunct2, THEN conjunct1, rule_format,
         of "[]" "\<lambda>c. Panics ''hook failed''" "[\<lambda>c. Returns ()]" "''hook failed''"]
    by (simp add: broken120(1))
  ultimately show ?thesis
    using h r native120(1) by simp
qed

text \<open>
  The same block with two post-job hooks of which the first panics: the body panics in
  \<^verbatim>\<open>assignSource\<close>, the handler does not return an error but leaves by the panic
  of the hook, and the second hook is never called.
\<close>

theorem post_job_hook_panic_counterexample:
  "snd (snd (handlerBody exampleEnv exampleLibrary brokenHookPipeline (blockAt 120) exampleObj))
     = Panics ''unsupported vmType native''
   \<and> length (postJobHooks brokenHookPipeline) = 2
   \<and> snd (snd (HandlerFunc exampleEnv exampleLibrary brokenHookPipeline (blockAt 120) exampleObj))
     = Panics ''hook failed''
   \<and> Call_postJobHook 1 \<lparr>Number = 120, BlockId = ''b'', Timestamp = 0\<rparr>
       \<notin> set (fst (HandlerFunc exampleEnv exampleLibrary brokenHookPipeline (blockAt 120) exampleObj))"
  by (simp add: broken120) (simp add: brokenHookPipeline_def)

end
